theory Spec2Isabelle
  imports Complex_Main
begin

section \<open>Python values, errors and data frames\<close>

text \<open>
  The program is a single script, \<^verbatim>\<open>app.py\<close>: a dashboard that loads an uploaded CSV
  file into the PostgreSQL table \<^verbatim>\<open>dados\<close>, reads the table back, filters it on two
  columns and renders the filtered view as a PDF grid.

  A Python \<^verbatim>\<open>str\<close> is a sequence of Unicode code points, so it is modelled as a list of
  natural numbers (an Isabelle \<open>char\<close> is a byte and could only hold Latin-1 text).
  \<open>py\<close> writes an ASCII literal of the source as such a string.
\<close>

type_synonym pystr = "nat list"

definition py :: "string \<Rightarrow> pystr" where
  "py s = map of_char s"

text \<open>
  The exceptions the script can meet. \<open>ConnectionError\<close> is what
  \<^verbatim>\<open>psycopg2.connect\<close> raises when the server is unreachable or rejects the credentials,
  \<open>ParseError\<close> what \<^verbatim>\<open>pd.read_csv\<close> raises on a file it cannot parse,
  \<open>ProgrammingError\<close> what \<^verbatim>\<open>cur.execute\<close> raises on a parameter psycopg2 cannot
  adapt, \<open>DataError\<close> and \<open>UndefinedTable\<close> what a statement raises on a value the
  column type rejects and on a missing table, \<open>FPDFUnicodeEncodingException\<close> what
  fpdf2 raises on a text its built-in fonts cannot encode; the others are Python's own.
\<close>

datatype error =
    ConnectionError
  | ParseError
  | IndexError
  | ProgrammingError
  | DataError
  | UndefinedTable
  | KeyError pystr
  | AttributeError
  | ZeroDivisionError
  | FPDFUnicodeEncodingException

text \<open>
  A cell of a data frame is a text or a number. Numbers are modelled as integers
  (Python's unbounded \<^verbatim>\<open>int\<close>, and an integral \<^verbatim>\<open>Decimal\<close> read back from a
  \<^verbatim>\<open>NUMERIC\<close> column); fractional values, floating point and missing values are outside
  the model.
\<close>

datatype pyval = PStr pystr | PInt int

fun digits :: "nat \<Rightarrow> pystr" where
  "digits n = (if n < 10 then [48 + n] else digits (n div 10) @ [48 + n mod 10])"

declare digits.simps [simp del]

definition str_int :: "int \<Rightarrow> pystr" where
  "str_int i = (if i < 0 then 45 # digits (nat (- i)) else digits (nat i))"

text \<open>\<^verbatim>\<open>str(item)\<close>, as \<^verbatim>\<open>to_pdf\<close> applies it to every cell.\<close>

fun str :: "pyval \<Rightarrow> pystr" where
  "str (PStr s) = s"
| "str (PInt i) = str_int i"

text \<open>
  A \<^verbatim>\<open>pandas.DataFrame\<close>: the column labels and the rows, each row the list of its
  cells in column order. In a frame built by pandas every row has one cell per column.
\<close>

record dataframe =
  columns :: "pystr list"
  rows :: "pyval list list"

definition frame_ok :: "dataframe \<Rightarrow> bool" where
  "frame_ok df = list_all (\<lambda>r. length r = length (columns df)) (rows df)"

text \<open>
  pandas gives a column the type \<^verbatim>\<open>int64\<close> when all its cells are integers and the
  type \<^verbatim>\<open>object\<close> otherwise. \<^verbatim>\<open>df.iterrows()\<close> builds each row from the values of
  all columns: when every column is \<^verbatim>\<open>int64\<close> the cells of a row are
  \<^verbatim>\<open>numpy.int64\<close> scalars, and when some column is \<^verbatim>\<open>object\<close> they are Python
  objects, the integers Python \<^verbatim>\<open>int\<close>s.
\<close>

fun is_int :: "pyval \<Rightarrow> bool" where
  "is_int (PInt i) = True"
| "is_int (PStr s) = False"

definition int64_rows :: "dataframe \<Rightarrow> bool" where
  "int64_rows df = (rows df \<noteq> [] \<and> list_all (list_all is_int) (rows df))"

text \<open>
  \<^verbatim>\<open>row[i]\<close> on a row of \<^verbatim>\<open>df.iterrows()\<close>: the labels of the row are the column
  names, so an integer key is a position, and a position past the end raises.
\<close>

definition row_get :: "pyval list \<Rightarrow> nat \<Rightarrow> error + pyval" where
  "row_get r i = (if i < length r then Inr (r ! i) else Inl IndexError)"

text \<open>
  The uploaded file is characterised by what \<^verbatim>\<open>pd.read_csv\<close> makes of it: a parser
  error, or the frame it parses to (the header row gives the column labels).
\<close>

datatype csv_file = Malformed | Parsed dataframe

fun read_csv :: "csv_file \<Rightarrow> error + dataframe" where
  "read_csv Malformed = Inl ParseError"
| "read_csv (Parsed df) = Inr df"

section \<open>The relational store\<close>

text \<open>
  The table \<^verbatim>\<open>dados (id SERIAL PRIMARY KEY, coluna1 TEXT, coluna2 TEXT, valor NUMERIC)\<close>.
\<close>

record db_row =
  id_key :: int
  coluna1 :: pystr
  coluna2 :: pystr
  valor :: int

text \<open>
  The server as the script sees it: whether a connection can be opened, the committed
  contents of \<^verbatim>\<open>dados\<close> in insertion order (\<open>None\<close> while the table does not exist), the
  next value of the \<^verbatim>\<open>SERIAL\<close> sequence (the sequence is created with the table and
  starts at 1), and the number of connections that were opened and not closed.
\<close>

record world =
  available :: bool
  dados :: "db_row list option"
  dados_id_seq :: int
  open_conns :: nat

text \<open>
  A psycopg2 connection runs its statements in a transaction (autocommit is off by
  default): they change the connection's own view of the table, \<open>work\<close>, and
  \<^verbatim>\<open>conn.commit()\<close> publishes that view. The script is the only client (one request
  runs at a time), so the view starts as the committed table.
\<close>

record connection =
  work :: "db_row list option"

definition get_connection :: "world \<Rightarrow> (error + connection) \<times> world" where
  "get_connection w =
     (if available w
      then (Inr \<lparr>work = dados w\<rparr>, w\<lparr>open_conns := open_conns w + 1\<rparr>)
      else (Inl ConnectionError, w))"

definition commit :: "connection \<Rightarrow> world \<Rightarrow> world" where
  "commit c w = w\<lparr>dados := work c\<rparr>"

definition close :: "world \<Rightarrow> world" where
  "close w = w\<lparr>open_conns := open_conns w - 1\<rparr>"

text \<open>\<^verbatim>\<open>CREATE TABLE IF NOT EXISTS dados (...)\<close>\<close>

definition create_table :: "connection \<Rightarrow> connection" where
  "create_table c = c\<lparr>work := Some (case work c of None \<Rightarrow> [] | Some t \<Rightarrow> t)\<rparr>"

text \<open>\<^verbatim>\<open>DELETE FROM dados\<close>\<close>

definition delete_all :: "connection \<Rightarrow> error + connection" where
  "delete_all c =
     (case work c of
        None \<Rightarrow> Inl UndefinedTable
      | Some t \<Rightarrow> Inr (c\<lparr>work := Some []\<rparr>))"

text \<open>
  What the server makes of a parameter sent for a column. A number sent for a
  \<^verbatim>\<open>TEXT\<close> column is stored as its decimal text. A string sent for the
  \<^verbatim>\<open>NUMERIC\<close> column is read as a numeric literal. The model reads the literals of
  its integers: blanks, an optional sign, decimal digits, blanks. PostgreSQL reads further
  forms (a decimal point, an exponent, \<^verbatim>\<open>NaN\<close>, \<^verbatim>\<open>Infinity\<close> and, from version 16,
  other bases and underscores), whose values are not integers or depend on the version;
  the model has no value for them and treats them as rejected, so the properties below
  that speak of a rejected string are stated for \<open>not_numeric\<close> strings only, which no
  version reads as a number.
\<close>

fun to_text :: "pyval \<Rightarrow> pystr" where
  "to_text (PStr s) = s"
| "to_text (PInt i) = str_int i"

definition is_digit :: "nat \<Rightarrow> bool" where
  "is_digit c = (48 \<le> c \<and> c \<le> 57)"

definition digits_val :: "pystr \<Rightarrow> nat" where
  "digits_val s = foldl (\<lambda>acc c. 10 * acc + (c - 48)) 0 s"

definition unsigned_in :: "pystr \<Rightarrow> nat option" where
  "unsigned_in s = (if s \<noteq> [] \<and> list_all is_digit s then Some (digits_val s) else None)"

definition is_blank :: "nat \<Rightarrow> bool" where
  "is_blank c = (c = 32 \<or> (9 \<le> c \<and> c \<le> 13))"

definition strip_blanks :: "pystr \<Rightarrow> pystr" where
  "strip_blanks s = rev (dropWhile is_blank (rev (dropWhile is_blank s)))"

definition numeric_in :: "pystr \<Rightarrow> int option" where
  "numeric_in s =
     (case strip_blanks s of
        [] \<Rightarrow> None
      | c # cs \<Rightarrow>
          if c = 45 then map_option (\<lambda>n. - int n) (unsigned_in cs)
          else if c = 43 then map_option int (unsigned_in cs)
          else map_option int (unsigned_in (c # cs)))"

fun to_numeric :: "pyval \<Rightarrow> int option" where
  "to_numeric (PInt i) = Some i"
| "to_numeric (PStr s) = numeric_in s"

text \<open>
  \<^verbatim>\<open>cur.execute("INSERT INTO dados (coluna1, coluna2, valor) VALUES (%s,%s,%s)", ...)\<close>.
  psycopg2 first adapts the parameters: it has no adapter for \<^verbatim>\<open>numpy.int64\<close>, so
  when the cells are numpy scalars (\<open>numpy\<close>) nothing is sent. Otherwise the server
  runs the statement; the key comes from the sequence, which is advanced outside the
  transaction.
\<close>

definition insert_row ::
  "bool \<Rightarrow> pyval \<Rightarrow> pyval \<Rightarrow> pyval \<Rightarrow> connection \<Rightarrow> world \<Rightarrow> (error + connection) \<times> world"
  where
  "insert_row numpy a b v c w =
     (if numpy then (Inl ProgrammingError, w)
      else
     (case work c of
        None \<Rightarrow> (Inl UndefinedTable, w)
      | Some t \<Rightarrow>
          (case to_numeric v of
             None \<Rightarrow> (Inl DataError, w)
           | Some n \<Rightarrow>
               (Inr (c\<lparr>work := Some (t @ [\<lparr>id_key = dados_id_seq w, coluna1 = to_text a,
                                             coluna2 = to_text b, valor = n\<rparr>])\<rparr>),
                w\<lparr>dados_id_seq := dados_id_seq w + 1\<rparr>))))"

text \<open>\<^verbatim>\<open>SELECT * FROM dados\<close> followed by \<^verbatim>\<open>fetchall()\<close>\<close>

definition select_all :: "connection \<Rightarrow> error + db_row list" where
  "select_all c = (case work c of None \<Rightarrow> Inl UndefinedTable | Some t \<Rightarrow> Inr t)"

section \<open>Ingestion and query\<close>

text \<open>
  The loop of \<^verbatim>\<open>load_csv_to_postgres\<close>:
  \<^verbatim>\<open>for _, row in df.iterrows(): cur.execute("INSERT ...", (row[0], row[1], row[2]))\<close>.
  The tuple is built first, so a short row raises before anything is sent. An exception
  leaves the loop at once, with the world as it is then. \<open>numpy\<close> says that the rows
  carry numpy scalars.
\<close>

fun insert_rows ::
  "bool \<Rightarrow> pyval list list \<Rightarrow> connection \<Rightarrow> world \<Rightarrow> (error + connection) \<times> world" where
  "insert_rows numpy [] c w = (Inr c, w)"
| "insert_rows numpy (r # rs) c w =
     (case row_get r 0 of
        Inl e \<Rightarrow> (Inl e, w)
      | Inr a \<Rightarrow>
     (case row_get r 1 of
        Inl e \<Rightarrow> (Inl e, w)
      | Inr b \<Rightarrow>
     (case row_get r 2 of
        Inl e \<Rightarrow> (Inl e, w)
      | Inr v \<Rightarrow>
     (case insert_row numpy a b v c w of
        (Inl e, w') \<Rightarrow> (Inl e, w')
      | (Inr c', w') \<Rightarrow> insert_rows numpy rs c' w'))))"

text \<open>
  \<^verbatim>\<open>load_csv_to_postgres(file)\<close>: parse, connect, create the table if absent and commit,
  delete every row and commit, insert the parsed rows and commit, close. There is no
  \<^verbatim>\<open>try\<close>: an exception skips everything after the statement that raised.
\<close>

definition load_csv_to_postgres :: "csv_file \<Rightarrow> world \<Rightarrow> (error + unit) \<times> world" where
  "load_csv_to_postgres file w =
     (case read_csv file of
        Inl e \<Rightarrow> (Inl e, w)
      | Inr df \<Rightarrow>
     (case get_connection w of
        (Inl e, w1) \<Rightarrow> (Inl e, w1)
      | (Inr c, w1) \<Rightarrow>
     (let c1 = create_table c;
          w2 = commit c1 w1
      in
     (case delete_all c1 of
        Inl e \<Rightarrow> (Inl e, w2)
      | Inr c2 \<Rightarrow>
     (let w3 = commit c2 w2
      in
     (case insert_rows (int64_rows df) (rows df) c2 w3 of
        (Inl e, w4) \<Rightarrow> (Inl e, w4)
      | (Inr c3, w4) \<Rightarrow> (Inr (), close (commit c3 w4))))))))"

text \<open>
  \<^verbatim>\<open>pd.DataFrame(data)\<close> on the list of dictionaries a \<^verbatim>\<open>RealDictCursor\<close> returns:
  the columns are the keys of the dictionaries, so an empty list gives a frame with no
  columns at all.
\<close>

definition row_cells :: "db_row \<Rightarrow> pyval list" where
  "row_cells r = [PInt (id_key r), PStr (coluna1 r), PStr (coluna2 r), PInt (valor r)]"

definition DataFrame :: "db_row list \<Rightarrow> dataframe" where
  "DataFrame data =
     (if data = [] then \<lparr>columns = [], rows = []\<rparr>
      else \<lparr>columns = [py ''id'', py ''coluna1'', py ''coluna2'', py ''valor''],
            rows = map row_cells data\<rparr>)"

text \<open>\<^verbatim>\<open>get_data()\<close>: connect, select everything, close, build the frame.\<close>

definition get_data :: "world \<Rightarrow> (error + dataframe) \<times> world" where
  "get_data w =
     (case get_connection w of
        (Inl e, w1) \<Rightarrow> (Inl e, w1)
      | (Inr c, w1) \<Rightarrow>
     (case select_all c of
        Inl e \<Rightarrow> (Inl e, w1)
      | Inr data \<Rightarrow> (Inr (DataFrame data), close w1)))"

section \<open>The filter\<close>

text \<open>
  \<^verbatim>\<open>df[name]\<close> raises \<^verbatim>\<open>KeyError\<close> when the frame has no such column.
  \<^verbatim>\<open>df[df[name] == v]\<close> keeps the rows whose cell in that column equals \<open>v\<close>;
  the comparison is Python's \<^verbatim>\<open>==\<close> on the cell, with no normalisation.
\<close>

fun index_of :: "'a \<Rightarrow> 'a list \<Rightarrow> nat option" where
  "index_of x [] = None"
| "index_of x (y # ys) = (if x = y then Some 0 else map_option Suc (index_of x ys))"

definition getitem :: "dataframe \<Rightarrow> pystr \<Rightarrow> error + pyval list" where
  "getitem df name =
     (case index_of name (columns df) of
        None \<Rightarrow> Inl (KeyError name)
      | Some i \<Rightarrow> Inr (map (\<lambda>r. r ! i) (rows df)))"

definition select_eq :: "dataframe \<Rightarrow> pystr \<Rightarrow> pyval \<Rightarrow> error + dataframe" where
  "select_eq df name v =
     (case index_of name (columns df) of
        None \<Rightarrow> Inl (KeyError name)
      | Some i \<Rightarrow> Inr (df\<lparr>rows := filter (\<lambda>r. row_get r i = Inr v) (rows df)\<rparr>))"

text \<open>
  The filter of \<^verbatim>\<open>main\<close>:
  \<^verbatim>\<open>
  df_filtrado = data.copy()
  if filtro_coluna1 != "Todos":
      df_filtrado = df_filtrado[df_filtrado["coluna1"] == filtro_coluna1]
  if filtro_coluna2 != "Todos":
      df_filtrado = df_filtrado[df_filtrado["coluna2"] == filtro_coluna2]
  \<close>
\<close>

definition Todos :: pyval where
  "Todos = PStr (py ''Todos'')"

definition df_filtrado :: "dataframe \<Rightarrow> pyval \<Rightarrow> pyval \<Rightarrow> error + dataframe" where
  "df_filtrado data filtro_coluna1 filtro_coluna2 =
     (case (if filtro_coluna1 \<noteq> Todos then select_eq data (py ''coluna1'') filtro_coluna1
            else Inr data) of
        Inl e \<Rightarrow> Inl e
      | Inr d \<Rightarrow>
          (if filtro_coluna2 \<noteq> Todos then select_eq d (py ''coluna2'') filtro_coluna2
           else Inr d))"

section \<open>The exports\<close>

text \<open>
  \<^verbatim>\<open>to_excel(df)\<close> writes the frame to one sheet, without the index: a row of the
  column labels, then one row per row of the frame.
\<close>

definition to_excel :: "dataframe \<Rightarrow> pyval list list" where
  "to_excel df = map PStr (columns df) # rows df"

text \<open>
  \<^verbatim>\<open>to_pdf\<close> reads \<^verbatim>\<open>pdf.epw\<close>, which only fpdf2 has, so \<^verbatim>\<open>FPDF\<close> is fpdf2's
  class. The object is modelled by what \<^verbatim>\<open>to_pdf\<close> uses of it: the printable width
  \<^verbatim>\<open>epw\<close>, the font size, and the page content as the sequence of the cells and line
  breaks drawn so far. Lengths are exact rationals in millimetres (an A4 page of 595.28
  points with margins of 10 mm, 72/25.4 points to the millimetre); page breaks, which
  the library inserts by itself, are not modelled.

  With a built-in font (\<^verbatim>\<open>"Arial"\<close> stands for Helvetica) \<^verbatim>\<open>cell\<close> first encodes its
  text in Latin-1 and raises when a character has no Latin-1 code (plain
  \<^verbatim>\<open>UnicodeEncodeError\<close> in the versions older than the exception class).
  \<^verbatim>\<open>output\<close> returns the document as a \<^verbatim>\<open>bytearray\<close>, whatever \<^verbatim>\<open>dest\<close> is, and a
  \<^verbatim>\<open>bytearray\<close> has no method \<^verbatim>\<open>encode\<close>.
\<close>

datatype 'c pdf_op = Cell rat rat "'c list" nat | Ln rat

record fpdf =
  epw :: rat
  font_family :: pystr
  font_size :: rat
  page_no :: nat
  buffer :: "char pdf_op list"

definition k_mm :: rat where
  "k_mm = 72 / (254 / 10)"

definition FPDF :: fpdf where
  "FPDF = \<lparr>epw = (59528 / 100) / k_mm - 10 - 10, font_family = [], font_size = 12 / k_mm,
           page_no = 0, buffer = []\<rparr>"

definition add_page :: "fpdf \<Rightarrow> fpdf" where
  "add_page pdf = pdf\<lparr>page_no := page_no pdf + 1\<rparr>"

definition set_font :: "pystr \<Rightarrow> rat \<Rightarrow> fpdf \<Rightarrow> fpdf" where
  "set_font family pt pdf = pdf\<lparr>font_family := family, font_size := pt / k_mm\<rparr>"

definition latin1 :: "pystr \<Rightarrow> bool" where
  "latin1 s = list_all (\<lambda>c. c < 256) s"

definition normalize_text :: "pystr \<Rightarrow> error + string" where
  "normalize_text txt =
     (if latin1 txt then Inr (map char_of txt) else Inl FPDFUnicodeEncodingException)"

definition cell :: "rat \<Rightarrow> rat \<Rightarrow> pystr \<Rightarrow> nat \<Rightarrow> fpdf \<Rightarrow> error + fpdf" where
  "cell w h txt border pdf =
     (case normalize_text txt of
        Inl e \<Rightarrow> Inl e
      | Inr b \<Rightarrow> Inr (pdf\<lparr>buffer := buffer pdf @ [Cell w h b border]\<rparr>))"

definition ln_pdf :: "rat \<Rightarrow> fpdf \<Rightarrow> fpdf" where
  "ln_pdf h pdf = pdf\<lparr>buffer := buffer pdf @ [Ln h]\<rparr>"

definition output_S :: "fpdf \<Rightarrow> char pdf_op list" where
  "output_S pdf = buffer pdf"

text \<open>\<^verbatim>\<open>.encode('latin1')\<close> on the \<^verbatim>\<open>bytearray\<close> that \<^verbatim>\<open>output\<close> returned.\<close>

definition encode :: "char pdf_op list \<Rightarrow> error + char pdf_op list" where
  "encode document = Inl AttributeError"

text \<open>\<^verbatim>\<open>pdf.epw / len(df.columns)\<close>: a division of a float by an \<^verbatim>\<open>int\<close>.\<close>

definition truediv :: "rat \<Rightarrow> nat \<Rightarrow> error + rat" where
  "truediv x n = (if n = 0 then Inl ZeroDivisionError else Inr (x / of_nat n))"

text \<open>
  \<^verbatim>\<open>
  def to_pdf(df):
      pdf = FPDF(); pdf.add_page(); pdf.set_font("Arial", size=12)
      line_height = pdf.font_size * 2
      col_width = pdf.epw / len(df.columns)
      for col in df.columns:
          pdf.cell(col_width, line_height, col, border=1)
      pdf.ln(line_height)
      for _, row in df.iterrows():
          for item in row:
              pdf.cell(col_width, line_height, str(item), border=1)
          pdf.ln(line_height)
      return pdf.output(dest='S').encode('latin1')
  \<close>
  The three loops, each left at the first cell that raises:
\<close>

fun header_cells :: "rat \<Rightarrow> rat \<Rightarrow> pystr list \<Rightarrow> fpdf \<Rightarrow> error + fpdf" where
  "header_cells col_width line_height [] pdf = Inr pdf"
| "header_cells col_width line_height (col # cols) pdf =
     (case cell col_width line_height col 1 pdf of
        Inl e \<Rightarrow> Inl e
      | Inr pdf' \<Rightarrow> header_cells col_width line_height cols pdf')"

fun row_items :: "rat \<Rightarrow> rat \<Rightarrow> pyval list \<Rightarrow> fpdf \<Rightarrow> error + fpdf" where
  "row_items col_width line_height [] pdf = Inr pdf"
| "row_items col_width line_height (item # items) pdf =
     (case cell col_width line_height (str item) 1 pdf of
        Inl e \<Rightarrow> Inl e
      | Inr pdf' \<Rightarrow> row_items col_width line_height items pdf')"

fun frame_rows :: "rat \<Rightarrow> rat \<Rightarrow> pyval list list \<Rightarrow> fpdf \<Rightarrow> error + fpdf" where
  "frame_rows col_width line_height [] pdf = Inr pdf"
| "frame_rows col_width line_height (row # rws) pdf =
     (case row_items col_width line_height row pdf of
        Inl e \<Rightarrow> Inl e
      | Inr pdf' \<Rightarrow> frame_rows col_width line_height rws (ln_pdf line_height pdf'))"

definition to_pdf :: "dataframe \<Rightarrow> error + char pdf_op list" where
  "to_pdf df =
     (let pdf = set_font (py ''Arial'') 12 (add_page FPDF);
          line_height = font_size pdf * 2
      in
     (case truediv (epw pdf) (length (columns df)) of
        Inl e \<Rightarrow> Inl e
      | Inr col_width \<Rightarrow>
     (case header_cells col_width line_height (columns df) pdf of
        Inl e \<Rightarrow> Inl e
      | Inr pdf1 \<Rightarrow>
     (case frame_rows col_width line_height (rows df) (ln_pdf line_height pdf1) of
        Inl e \<Rightarrow> Inl e
      | Inr pdf2 \<Rightarrow> encode (output_S pdf2)))))"

section \<open>Login, roles and the script\<close>

text \<open>
  \<^verbatim>\<open>users\<close> is the dictionary read from the environment variable \<^verbatim>\<open>USERS_JSON\<close>,
  from user name to password; \<open>default_users\<close> is its value when the variable is unset.
\<close>

type_synonym users = "pystr \<rightharpoonup> pystr"

definition default_users :: users where
  "default_users =
     map_of [(py ''admin'', py ''admin_pass''), (py ''analyst'', py ''analyst_pass''),
             (py ''reader'', py ''reader_pass'')]"

text \<open>
  \<^verbatim>\<open>st.session_state\<close> survives from one run of the script to the next; a key is absent
  until it is first assigned.
\<close>

record session_state =
  logged_in :: "bool option"
  user :: "pystr option"

text \<open>What the widgets return in one run of the script.\<close>

record inputs =
  username :: pystr
  password :: pystr
  entrar :: bool
  upload :: "csv_file option"
  choice_coluna1 :: pyval
  choice_coluna2 :: pyval

text \<open>
  \<^verbatim>\<open>login()\<close> lets the run go on only when the session is logged in. Otherwise it
  shows the form and ends the run with \<^verbatim>\<open>st.stop()\<close>, or, when the button was pressed
  with a user name and password found in \<^verbatim>\<open>users\<close>, records the user and asks for a
  rerun.
\<close>

datatype flow = Continue | Stop | Rerun

definition login :: "users \<Rightarrow> inputs \<Rightarrow> session_state \<Rightarrow> flow \<times> session_state" where
  "login us inp s =
     (let s1 = (if logged_in s = None then s\<lparr>logged_in := Some False\<rparr> else s)
      in
      if logged_in s1 \<noteq> Some True then
        (if entrar inp then
           (if us (username inp) = Some (password inp)
            then (Rerun, s1\<lparr>logged_in := Some True, user := Some (username inp)\<rparr>)
            else (Stop, s1))
         else (Stop, s1))
      else (Continue, s1))"

text \<open>
  \<^verbatim>\<open>
  def check_role():
      role_map = {"admin":"admin", "analyst":"analyst", "reader":"reader"}
      return role_map.get(st.session_state.user, "reader")
  \<close>
\<close>

definition role_map :: "pystr \<rightharpoonup> pystr" where
  "role_map =
     map_of [(py ''admin'', py ''admin''), (py ''analyst'', py ''analyst''),
             (py ''reader'', py ''reader'')]"

definition check_role :: "session_state \<Rightarrow> error + pystr" where
  "check_role s =
     (case user s of
        None \<Rightarrow> Inl AttributeError
      | Some u \<Rightarrow> Inr (case role_map u of Some r \<Rightarrow> r | None \<Rightarrow> py ''reader''))"

text \<open>
  One run of \<^verbatim>\<open>main()\<close>. The run records which of the functions that touch the store
  it called. An exception that nothing catches ends the run. The widgets that only
  display (the grid, the chart, the download buttons) are left out: they change neither
  the session nor the store.
\<close>

datatype call = Call_load_csv_to_postgres | Call_get_data

datatype outcome =
    Stopped
  | Rerun_requested
  | Raised error
  | Shown dataframe "pyval list list" "char pdf_op list"

record run =
  outcome :: outcome
  session :: session_state
  store :: world
  calls :: "call list"

text \<open>
  \<^verbatim>\<open>
  if role == "admin":
      file = st.sidebar.file_uploader(...)
      if file:
          load_csv_to_postgres(file)
  \<close>
\<close>

definition admin_upload ::
  "pystr \<Rightarrow> csv_file option \<Rightarrow> world \<Rightarrow> (error + unit) \<times> world \<times> call list" where
  "admin_upload role file w =
     (if role = py ''admin'' then
        (case file of
           None \<Rightarrow> (Inr (), w, [])
         | Some f \<Rightarrow>
             (case load_csv_to_postgres f w of (r, w') \<Rightarrow> (r, w', [Call_load_csv_to_postgres])))
      else (Inr (), w, []))"

text \<open>
  \<^verbatim>\<open>st.selectbox(label, options)\<close> returns one of its options, the first one unless the
  user picked another. \<^verbatim>\<open>Series.unique()\<close> keeps the order of first appearance.
\<close>

definition selectbox :: "pyval list \<Rightarrow> pyval \<Rightarrow> pyval" where
  "selectbox options choice = (if choice \<in> set options then choice else hd options)"

definition unique :: "pyval list \<Rightarrow> pyval list" where
  "unique xs = rev (remdups (rev xs))"

text \<open>
  The rest of \<^verbatim>\<open>main\<close> once the data is read: the two selectors, the filter, the
  spreadsheet, the PDF.
\<close>

definition dashboard ::
  "inputs \<Rightarrow> dataframe \<Rightarrow> error + dataframe \<times> pyval list list \<times> char pdf_op list" where
  "dashboard inp data =
     (case getitem data (py ''coluna1'') of
        Inl e \<Rightarrow> Inl e
      | Inr c1 \<Rightarrow>
     (case getitem data (py ''coluna2'') of
        Inl e \<Rightarrow> Inl e
      | Inr c2 \<Rightarrow>
     (let filtro_coluna1 = selectbox (Todos # unique c1) (choice_coluna1 inp);
          filtro_coluna2 = selectbox (Todos # unique c2) (choice_coluna2 inp)
      in
     (case df_filtrado data filtro_coluna1 filtro_coluna2 of
        Inl e \<Rightarrow> Inl e
      | Inr view \<Rightarrow>
     (let excel_data = to_excel view
      in
     (case to_pdf view of
        Inl e \<Rightarrow> Inl e
      | Inr pdf_data \<Rightarrow> Inr (view, excel_data, pdf_data)))))))"

text \<open>
  A connection object that an exception left unclosed is closed by its finalizer once
  the exception is released, which it is when the run is over: after a run the open
  connections are those that were open before it.
\<close>

definition finalize :: "world \<Rightarrow> world \<Rightarrow> world" where
  "finalize w0 w = w\<lparr>open_conns := open_conns w0\<rparr>"

definition main :: "users \<Rightarrow> inputs \<Rightarrow> session_state \<Rightarrow> world \<Rightarrow> run" where
  "main us inp s w =
     (case login us inp s of
        (Stop, s1) \<Rightarrow> \<lparr>outcome = Stopped, session = s1, store = w, calls = []\<rparr>
      | (Rerun, s1) \<Rightarrow> \<lparr>outcome = Rerun_requested, session = s1, store = w, calls = []\<rparr>
      | (Continue, s1) \<Rightarrow>
     (case check_role s1 of
        Inl e \<Rightarrow> \<lparr>outcome = Raised e, session = s1, store = w, calls = []\<rparr>
      | Inr role \<Rightarrow>
     (case admin_upload role (upload inp) w of
        (Inl e, w1, cs) \<Rightarrow>
          \<lparr>outcome = Raised e, session = s1, store = finalize w w1, calls = cs\<rparr>
      | (Inr u, w1, cs) \<Rightarrow>
     (case get_data w1 of
        (Inl e, w2) \<Rightarrow>
          \<lparr>outcome = Raised e, session = s1, store = finalize w w2,
           calls = cs @ [Call_get_data]\<rparr>
      | (Inr data, w2) \<Rightarrow>
     (case dashboard inp data of
        Inl e \<Rightarrow>
          \<lparr>outcome = Raised e, session = s1, store = w2, calls = cs @ [Call_get_data]\<rparr>
      | Inr (view, excel_data, pdf_data) \<Rightarrow>
          \<lparr>outcome = Shown view excel_data pdf_data, session = s1, store = w2,
           calls = cs @ [Call_get_data]\<rparr>)))))"

text \<open>
  A session is a sequence of runs: each run starts from the session state and the store
  the run before it left. A new session has no key set.
\<close>

fun runs :: "users \<Rightarrow> inputs list \<Rightarrow> session_state \<Rightarrow> world \<Rightarrow> run list" where
  "runs us [] s w = []"
| "runs us (inp # inps) s w =
     (let r = main us inp s w in r # runs us inps (session r) (store r))"

definition new_session :: session_state where
  "new_session = \<lparr>logged_in = None, user = None\<rparr>"

section \<open>Notions used to state the properties\<close>

text \<open>
  Text that psycopg2 can send: a sequence of Unicode scalar values without the NUL
  character. Other strings are outside the model.
\<close>

definition plain :: "pystr \<Rightarrow> bool" where
  "plain s = list_all (\<lambda>c. 0 < c \<and> c < 1114112 \<and> (c < 55296 \<or> 57343 < c)) s"

fun sendable :: "pyval \<Rightarrow> bool" where
  "sendable (PStr s) = plain s"
| "sendable (PInt i) = True"

text \<open>
  A well-formed input has three columns, the third one of integers, and is not made of
  integer columns only: every parsed row is two cells, texts or integers (a text column
  whose values pandas reads as numbers), and an integer, and some cell of the frame is a
  text, so that the rows carry Python values.
\<close>

fun record_row :: "pyval list \<Rightarrow> bool" where
  "record_row [a, b, PInt v] = (sendable a \<and> sendable b)"
| "record_row r = False"

definition well_formed :: "dataframe \<Rightarrow> bool" where
  "well_formed df =
     (length (columns df) = 3 \<and> list_all record_row (rows df) \<and> \<not> int64_rows df)"

text \<open>
  A row the loop can insert: it has the three positions the loop reads, and the server
  accepts the third as a number.
\<close>

definition insertable :: "pyval list \<Rightarrow> bool" where
  "insertable r = (2 < length r \<and> to_numeric (r ! 2) \<noteq> None)"

text \<open>
  A frame the load accepts: its rows carry Python values, and each row is insertable with
  its three cells sendable.
\<close>

definition loadable_row :: "pyval list \<Rightarrow> bool" where
  "loadable_row r =
     (insertable r \<and> sendable (r ! 0) \<and> sendable (r ! 1) \<and> sendable (r ! 2))"

definition loadable :: "dataframe \<Rightarrow> bool" where
  "loadable df = (list_all loadable_row (rows df) \<and> \<not> int64_rows df)"

text \<open>
  A string that no version of PostgreSQL reads as a number: a numeric literal has a
  digit or is \<^verbatim>\<open>NaN\<close>, \<^verbatim>\<open>Infinity\<close> or \<^verbatim>\<open>inf\<close> in some case, so a string with no digit
  and neither of the letters \<^verbatim>\<open>n\<close> and \<^verbatim>\<open>i\<close> is none.
\<close>

definition not_numeric :: "pystr \<Rightarrow> bool" where
  "not_numeric s =
     list_all (\<lambda>c. \<not> is_digit c \<and> c \<noteq> 73 \<and> c \<noteq> 78 \<and> c \<noteq> 105 \<and> c \<noteq> 110) s"

text \<open>The rows the table holds once the rows \<open>rs\<close> were inserted with keys from \<open>n\<close> on.\<close>

fun stored :: "int \<Rightarrow> pyval list list \<Rightarrow> db_row list" where
  "stored n [] = []"
| "stored n (r # rs) =
     \<lparr>id_key = n, coluna1 = to_text (r ! 0), coluna2 = to_text (r ! 1),
      valor = the (to_numeric (r ! 2))\<rparr> # stored (n + 1) rs"

text \<open>The texts a frame puts in the cells of the page under the header.\<close>

definition cell_texts :: "dataframe \<Rightarrow> pystr list" where
  "cell_texts df = map str (concat (rows df))"

section \<open>Concrete inputs\<close>

text \<open>
  Two states of the store (one row left by an earlier load; the table created and empty),
  a fresh database in which the table does not exist yet, and four files: the scenario
  \<^verbatim>\<open>[("a","x",1),("b","y",2),("a","y",3)]\<close>, a file whose third column holds the texts
  \<^verbatim>\<open>1\<close> and \<^verbatim>\<open>abc\<close>, a file with four columns and a file with two.
  \<open>scenario_table\<close> is the frame read back once the scenario was loaded into a new table,
  \<open>euro_df\<close> a frame with the euro sign (code point 8364) in a cell,
  \<open>numeric_text_df\<close> a file whose first column pandas reads as numbers and \<open>int_df\<close> a
  file whose three columns it reads as numbers.
\<close>

definition store_one :: world where
  "store_one =
     \<lparr>available = True,
      dados = Some [\<lparr>id_key = 1, coluna1 = py ''old'', coluna2 = py ''row'', valor = 7\<rparr>],
      dados_id_seq = 2, open_conns = 0\<rparr>"

definition store_empty :: world where
  "store_empty = \<lparr>available = True, dados = Some [], dados_id_seq = 1, open_conns = 0\<rparr>"

definition store_fresh :: world where
  "store_fresh = \<lparr>available = True, dados = None, dados_id_seq = 1, open_conns = 0\<rparr>"

definition scenario_df :: dataframe where
  "scenario_df =
     \<lparr>columns = [py ''coluna1'', py ''coluna2'', py ''valor''],
      rows = [[PStr (py ''a''), PStr (py ''x''), PInt 1],
              [PStr (py ''b''), PStr (py ''y''), PInt 2],
              [PStr (py ''a''), PStr (py ''y''), PInt 3]]\<rparr>"

definition text_valor_df :: dataframe where
  "text_valor_df =
     \<lparr>columns = [py ''coluna1'', py ''coluna2'', py ''valor''],
      rows = [[PStr (py ''a''), PStr (py ''x''), PStr (py ''1'')],
              [PStr (py ''b''), PStr (py ''y''), PStr (py ''abc'')]]\<rparr>"

definition four_col_df :: dataframe where
  "four_col_df =
     \<lparr>columns = [py ''coluna1'', py ''coluna2'', py ''valor'', py ''extra''],
      rows = [[PStr (py ''a''), PStr (py ''x''), PInt 1, PStr (py ''z'')]]\<rparr>"

definition scenario_table :: dataframe where
  "scenario_table =
     \<lparr>columns = [py ''id'', py ''coluna1'', py ''coluna2'', py ''valor''],
      rows = [[PInt 1, PStr (py ''a''), PStr (py ''x''), PInt 1],
              [PInt 2, PStr (py ''b''), PStr (py ''y''), PInt 2],
              [PInt 3, PStr (py ''a''), PStr (py ''y''), PInt 3]]\<rparr>"

definition euro_df :: dataframe where
  "euro_df =
     \<lparr>columns = [py ''id'', py ''coluna1'', py ''coluna2'', py ''valor''],
      rows = [[PInt 1, PStr [8364], PStr (py ''x''), PInt 5]]\<rparr>"

definition numeric_text_df :: dataframe where
  "numeric_text_df =
     \<lparr>columns = [py ''coluna1'', py ''coluna2'', py ''valor''],
      rows = [[PInt 1, PStr (py ''x''), PInt 5]]\<rparr>"

definition int_df :: dataframe where
  "int_df =
     \<lparr>columns = [py ''coluna1'', py ''coluna2'', py ''valor''],
      rows = [[PInt 1, PInt 2, PInt 3]]\<rparr>"

definition two_col_df :: dataframe where
  "two_col_df =
     \<lparr>columns = [py ''coluna1'', py ''coluna2''],
      rows = [[PStr (py ''a''), PStr (py ''x'')]]\<rparr>"

text \<open>
  Sessions logged in as each of the three users, and what the widgets return in three
  runs: a login attempt by a user the dictionary does not have, the administrator's
  login, a run in which a file is in the uploader, and a run that only views the data.
\<close>

definition admin_session :: session_state where
  "admin_session = \<lparr>logged_in = Some True, user = Some (py ''admin'')\<rparr>"

definition analyst_session :: session_state where
  "analyst_session = \<lparr>logged_in = Some True, user = Some (py ''analyst'')\<rparr>"

definition reader_session :: session_state where
  "reader_session = \<lparr>logged_in = Some True, user = Some (py ''reader'')\<rparr>"

definition stranger_login :: inputs where
  "stranger_login =
     \<lparr>username = py ''mallory'', password = py ''guess'', entrar = True,
      upload = Some (Parsed scenario_df), choice_coluna1 = Todos, choice_coluna2 = Todos\<rparr>"

definition admin_login :: inputs where
  "admin_login =
     \<lparr>username = py ''admin'', password = py ''admin_pass'', entrar = True,
      upload = None, choice_coluna1 = Todos, choice_coluna2 = Todos\<rparr>"

definition upload_run :: inputs where
  "upload_run =
     \<lparr>username = [], password = [], entrar = False,
      upload = Some (Parsed scenario_df), choice_coluna1 = PStr (py ''a''),
      choice_coluna2 = Todos\<rparr>"

definition view_run :: inputs where
  "view_run =
     \<lparr>username = [], password = [], entrar = False, upload = None,
      choice_coluna1 = Todos, choice_coluna2 = Todos\<rparr>"

section \<open>Ingestion: what the loop and the load do\<close>

text \<open>
  The loop touches nothing of the world but the sequence. On rows that carry Python
  values it inserts the insertable rows up to the first row that is not; it returns only
  if every row is insertable; on numpy rows and on short rows it raises at once.
\<close>

lemma insert_rows_frame:
  "insert_rows numpy rs c w = (res, w') \<Longrightarrow>
     dados w' = dados w \<and> open_conns w' = open_conns w \<and> available w' = available w"
proof (induction rs arbitrary: c w)
  case Nil
  then show ?case by auto
next
  case (Cons r rs)
  then show ?case
    by (auto simp: insert_row_def split: sum.splits option.splits prod.splits if_splits)
qed

lemma insert_row_ok:
  assumes "work c = Some t" "to_numeric v = Some n"
  shows "insert_row False a b v c w =
           (Inr (c\<lparr>work := Some (t @ [\<lparr>id_key = dados_id_seq w, coluna1 = to_text a,
                                         coluna2 = to_text b, valor = n\<rparr>])\<rparr>),
            w\<lparr>dados_id_seq := dados_id_seq w + 1\<rparr>)"
  using assms by (simp add: insert_row_def)

lemma insert_rows_ok:
  "list_all insertable rs \<Longrightarrow> work c = Some t \<Longrightarrow>
   \<exists>c'. insert_rows False rs c w
          = (Inr c', w\<lparr>dados_id_seq := dados_id_seq w + int (length rs)\<rparr>)
        \<and> work c' = Some (t @ stored (dados_id_seq w) rs)"
proof (induction rs arbitrary: c w t)
  case Nil
  then show ?case by simp
next
  case (Cons r rs)
  from Cons.prems have rs: "list_all insertable rs" and ir: "insertable r"
    by simp_all
  from ir have r: "2 < length r" "to_numeric (r ! 2) \<noteq> None"
    by (simp_all add: insertable_def)
  then obtain n where n: "to_numeric (r ! 2) = Some n" by auto
  from r have l: "r \<noteq> []" "Suc 0 < length r" by auto
  let ?c = "c\<lparr>work := Some (t @ [\<lparr>id_key = dados_id_seq w, coluna1 = to_text (r ! 0),
                                             coluna2 = to_text (r ! 1), valor = n\<rparr>])\<rparr>"
  let ?w = "w\<lparr>dados_id_seq := dados_id_seq w + 1\<rparr>"
  have step: "insert_row False (r ! 0) (r ! 1) (r ! 2) c w = (Inr ?c, ?w)"
    by (rule insert_row_ok [OF Cons.prems(2) n])
  have "work ?c = Some (t @ [\<lparr>id_key = dados_id_seq w, coluna1 = to_text (r ! 0),
                                             coluna2 = to_text (r ! 1), valor = n\<rparr>])" by simp
  from Cons.IH[OF rs this, of ?w] obtain c' where
    c': "insert_rows False rs ?c ?w
           = (Inr c', ?w\<lparr>dados_id_seq := dados_id_seq ?w + int (length rs)\<rparr>)"
        "work c' = Some ((t @ [\<lparr>id_key = dados_id_seq w, coluna1 = to_text (r ! 0),
               coluna2 = to_text (r ! 1), valor = n\<rparr>]) @ stored (dados_id_seq ?w) rs)"
    by blast
  show ?case
    using r l step c' n by (simp add: row_get_def add.assoc)
qed

lemma insert_rows_fail:
  "list_all insertable good \<Longrightarrow> \<not> insertable bad \<Longrightarrow> work c = Some t \<Longrightarrow>
   \<exists>w'. insert_rows False (good @ bad # rest) c w =
           (Inl (if 2 < length bad then DataError else IndexError), w')"
proof (induction good arbitrary: c w t)
  case Nil
  then show ?case
    by (auto simp: insertable_def row_get_def insert_row_def split: option.splits)
next
  case (Cons r rs)
  from Cons.prems have rs: "list_all insertable rs" and ir: "insertable r"
    by simp_all
  from ir have r: "2 < length r" "to_numeric (r ! 2) \<noteq> None"
    by (simp_all add: insertable_def)
  then obtain n where n: "to_numeric (r ! 2) = Some n" by auto
  from r have l: "r \<noteq> []" "Suc 0 < length r" by auto
  let ?c = "c\<lparr>work := Some (t @ [\<lparr>id_key = dados_id_seq w, coluna1 = to_text (r ! 0),
                                             coluna2 = to_text (r ! 1), valor = n\<rparr>])\<rparr>"
  let ?w = "w\<lparr>dados_id_seq := dados_id_seq w + 1\<rparr>"
  have step: "insert_row False (r ! 0) (r ! 1) (r ! 2) c w = (Inr ?c, ?w)"
    by (rule insert_row_ok [OF Cons.prems(3) n])
  have "work ?c = Some (t @ [\<lparr>id_key = dados_id_seq w, coluna1 = to_text (r ! 0),
                                             coluna2 = to_text (r ! 1), valor = n\<rparr>])" by simp
  from Cons.IH[OF rs Cons.prems(2) this, of ?w]
  show ?case using r l step by (simp add: row_get_def)
qed

lemma insert_rows_returns:
  "insert_rows numpy rs c w = (Inr c', w') \<Longrightarrow> list_all insertable rs"
proof (induction rs arbitrary: c w)
  case Nil
  then show ?case by simp
next
  case (Cons r rs)
  then show ?case
    by (auto simp: insert_row_def insertable_def row_get_def
        split: sum.splits option.splits prod.splits if_splits)
qed

lemma insert_rows_numpy:
  "2 < length r \<Longrightarrow> insert_rows True (r # rs) c w = (Inl ProgrammingError, w)"
  by (auto simp: row_get_def insert_row_def)

lemma insert_rows_short:
  "length r < 3 \<Longrightarrow> insert_rows numpy (r # rs) c w = (Inl IndexError, w)"
  by (auto simp: row_get_def split: sum.splits)

text \<open>
  On an available store the load of a parsed file is the loop run on the emptied table.
  When it raises, the table is left empty and the connection open; when it returns, every
  row was insertable and the connection is closed.
\<close>

lemma load_parsed:
  assumes "available w"
  shows "load_csv_to_postgres (Parsed df) w =
           (case insert_rows (int64_rows df) (rows df) \<lparr>work = Some []\<rparr>
                   (w\<lparr>open_conns := open_conns w + 1, dados := Some []\<rparr>) of
              (Inl e, w4) \<Rightarrow> (Inl e, w4)
            | (Inr c3, w4) \<Rightarrow> (Inr (), close (commit c3 w4)))"
  using assms
  by (simp add: load_csv_to_postgres_def get_connection_def create_table_def commit_def
      delete_all_def split: option.splits)

lemma insert_rows_errors:
  "insert_rows numpy rs c w = (Inl e, w') \<Longrightarrow>
     e = IndexError \<or> e = ProgrammingError \<or> e = DataError \<or> e = UndefinedTable"
proof (induction rs arbitrary: c w)
  case Nil
  then show ?case by simp
next
  case (Cons r rs)
  then show ?case
    by (auto simp: insert_row_def row_get_def
        split: sum.splits option.splits prod.splits if_splits)
qed

lemma load_raises:
  assumes "available w" "load_csv_to_postgres (Parsed df) w = (Inl e, w')"
  shows "dados w' = Some [] \<and> open_conns w' = open_conns w + 1 \<and> available w'
       \<and> e \<noteq> ParseError \<and> e \<noteq> ConnectionError"
proof -
  let ?w = "w\<lparr>open_conns := open_conns w + 1, dados := Some []\<rparr>"
  obtain res w4 where i: "insert_rows (int64_rows df) (rows df) \<lparr>work = Some []\<rparr> ?w = (res, w4)"
    by (cases "insert_rows (int64_rows df) (rows df) \<lparr>work = Some []\<rparr> ?w")
  from assms(2) i have r: "res = Inl e" "w4 = w'"
    by (auto simp: load_parsed [OF assms(1)] split: sum.splits)
  from insert_rows_frame [OF i] r assms(1)
  have "dados w' = Some []" "open_conns w' = open_conns w + 1" "available w'" by simp_all
  moreover from insert_rows_errors [OF i [unfolded r]]
  have "e \<noteq> ParseError \<and> e \<noteq> ConnectionError" by auto
  ultimately show ?thesis by simp
qed

lemma load_returns:
  assumes "available w" "load_csv_to_postgres (Parsed df) w = (Inr u, w')"
  shows "list_all insertable (rows df) \<and> open_conns w' = open_conns w \<and> available w'"
proof -
  let ?w = "w\<lparr>open_conns := open_conns w + 1, dados := Some []\<rparr>"
  obtain res w4 where i: "insert_rows (int64_rows df) (rows df) \<lparr>work = Some []\<rparr> ?w = (res, w4)"
    by (cases "insert_rows (int64_rows df) (rows df) \<lparr>work = Some []\<rparr> ?w")
  from assms(2) i obtain c3 where r: "res = Inr c3" "w' = close (commit c3 w4)"
    by (auto simp: load_parsed [OF assms(1)] split: sum.splits)
  from insert_rows_frame [OF i] insert_rows_returns [OF i [unfolded r(1)]] r assms(1)
  show ?thesis by (simp add: close_def commit_def)
qed

lemma load_success:
  assumes "available w" "list_all insertable (rows df)" "\<not> int64_rows df"
  shows "load_csv_to_postgres (Parsed df) w =
           (Inr (), w\<lparr>dados := Some (stored (dados_id_seq w) (rows df)),
                      dados_id_seq := dados_id_seq w + int (length (rows df))\<rparr>)"
proof -
  let ?c = "\<lparr>work = Some ([]::db_row list)\<rparr>"
  let ?w = "w\<lparr>open_conns := open_conns w + 1, dados := Some []\<rparr>"
  from insert_rows_ok[OF assms(2), of ?c "[]" ?w] obtain c' where
    c': "insert_rows False (rows df) ?c ?w
           = (Inr c', ?w\<lparr>dados_id_seq := dados_id_seq ?w + int (length (rows df))\<rparr>)"
        "work c' = Some ([] @ stored (dados_id_seq ?w) (rows df))"
    by auto
  show ?thesis
    using assms(3) c' by (simp add: load_parsed [OF assms(1)] close_def commit_def)
qed

lemma load_failure:
  assumes "available w" "rows df = good @ bad # rest" "list_all insertable good"
    "\<not> insertable bad" "\<not> int64_rows df"
  shows "\<exists>w'. load_csv_to_postgres (Parsed df) w =
                (Inl (if 2 < length bad then DataError else IndexError), w')"
proof -
  let ?c = "\<lparr>work = Some ([]::db_row list)\<rparr>"
  let ?w = "w\<lparr>open_conns := open_conns w + 1, dados := Some []\<rparr>"
  from insert_rows_fail[OF assms(3,4), of ?c "[]" rest ?w] obtain w' where
    e: "insert_rows False (good @ bad # rest) ?c ?w =
          (Inl (if 2 < length bad then DataError else IndexError), w')"
    by auto
  show ?thesis
    using assms(2,5) e by (simp add: load_parsed [OF assms(1)])
qed

lemma load_not_insertable:
  assumes "available w" "\<not> list_all insertable (rows df)"
  shows "\<exists>e w'. load_csv_to_postgres (Parsed df) w = (Inl e, w')"
proof (cases "load_csv_to_postgres (Parsed df) w")
  case (Pair res w')
  show ?thesis
  proof (cases res)
    case (Inl e)
    with Pair show ?thesis by simp
  next
    case (Inr u)
    with Pair load_returns [OF assms(1), of df u w'] assms(2) show ?thesis by simp
  qed
qed

lemma load_numpy:
  assumes "available w" "int64_rows df" "rows df = r # rs" "2 < length r"
  shows "\<exists>w'. load_csv_to_postgres (Parsed df) w = (Inl ProgrammingError, w')"
  using assms(2,3) insert_rows_numpy [OF assms(4)]
  by (simp add: load_parsed [OF assms(1)])

lemma load_short:
  assumes "available w" "rows df = r # rs" "length r < 3"
  shows "\<exists>w'. load_csv_to_postgres (Parsed df) w = (Inl IndexError, w')"
  using assms(2) insert_rows_short [OF assms(3)]
  by (simp add: load_parsed [OF assms(1)])

lemma first_bad_row:
  assumes "\<not> list_all insertable rs"
  shows "\<exists>good bad rest. rs = good @ bad # rest \<and> list_all insertable good \<and> \<not> insertable bad"
proof -
  from assms have "\<exists>r\<in>set rs. \<not> insertable r" by (simp add: list_all_iff)
  from split_list_first_prop[OF this] obtain ys x zs where
    "rs = ys @ x # zs" "\<not> insertable x" "\<forall>y\<in>set ys. \<not> \<not> insertable y" by blast
  then show ?thesis by (auto simp: list_all_iff)
qed

lemma load_unavailable:
  "\<not> available w \<Longrightarrow> load_csv_to_postgres (Parsed df) w = (Inl ConnectionError, w)"
  by (simp add: load_csv_to_postgres_def get_connection_def)

lemma load_malformed: "load_csv_to_postgres Malformed w = (Inl ParseError, w)"
  by (simp add: load_csv_to_postgres_def)

lemma load_conns:
  "case load_csv_to_postgres f w of
     (Inr u, w') \<Rightarrow> open_conns w' = open_conns w
   | (Inl e, w') \<Rightarrow>
       open_conns w' = (if e = ParseError \<or> e = ConnectionError then open_conns w
                        else open_conns w + 1)"
proof (cases f)
  case Malformed
  then show ?thesis by (simp add: load_malformed)
next
  case (Parsed d)
  show ?thesis
  proof (cases "available w")
    case False
    then show ?thesis using Parsed by (simp add: load_unavailable)
  next
    case True
    obtain res w' where l: "load_csv_to_postgres (Parsed d) w = (res, w')"
      by (cases "load_csv_to_postgres (Parsed d) w")
    show ?thesis
    proof (cases res)
      case (Inl e)
      with load_raises [OF True, of d e w'] l Parsed show ?thesis by simp
    next
      case (Inr u)
      with load_returns [OF True, of d u w'] l Parsed show ?thesis by simp
    qed
  qed
qed

lemma get_data_conns:
  "case get_data w of
     (Inr df, w') \<Rightarrow> open_conns w' = open_conns w
   | (Inl e, w') \<Rightarrow>
       open_conns w' = (if e = ConnectionError then open_conns w else open_conns w + 1)"
  by (simp add: get_data_def get_connection_def select_all_def close_def split: option.splits)

lemma record_row_insertable: "record_row r \<Longrightarrow> insertable r"
  by (cases r rule: record_row.cases) (simp_all add: insertable_def)

lemma stored_record_rows:
  "list_all record_row rs \<Longrightarrow>
   map row_cells (stored n rs)
     = map (\<lambda>k. [PInt (n + int k), PStr (to_text (rs ! k ! 0)), PStr (to_text (rs ! k ! 1)),
                  rs ! k ! 2]) [0..<length rs]"
proof (induction rs arbitrary: n)
  case Nil
  then show ?case by simp
next
  case (Cons r rs)
  from Cons.prems have "record_row r" and rs: "list_all record_row rs" by simp_all
  then obtain a b v where r: "r = [a, b, PInt v]"
    by (cases r rule: record_row.cases) simp_all
  have u: "[0..<length (r # rs)] = 0 # map Suc [0..<length rs]"
    by (simp add: upt_conv_Cons map_Suc_upt del: upt_Suc)
  show ?case
    unfolding u using Cons.IH [OF rs, of "n + 1"]
    by (simp add: r row_cells_def comp_def add.assoc del: upt_Suc)
qed

lemma not_numeric_rejected: "not_numeric s \<Longrightarrow> numeric_in s = None"
proof -
  assume n: "not_numeric s"
  have sub: "set (strip_blanks s) \<subseteq> set s"
    by (auto simp: strip_blanks_def dest!: set_dropWhileD)
  have nd: "\<not> is_digit c" if "c \<in> set (strip_blanks s)" for c
    using n sub that by (auto simp: not_numeric_def list_all_iff)
  show ?thesis
  proof (cases "strip_blanks s")
    case Nil
    then show ?thesis by (simp add: numeric_in_def)
  next
    case (Cons c cs)
    with nd have c: "\<not> is_digit c" and cs: "\<forall>x\<in>set cs. \<not> is_digit x" by simp_all
    have "unsigned_in cs = None"
      using cs by (cases cs) (auto simp: unsigned_in_def)
    moreover have "unsigned_in (c # cs) = None"
      using c by (simp add: unsigned_in_def)
    ultimately show ?thesis using Cons by (simp add: numeric_in_def)
  qed
qed

lemma loadable_row_insertable: "loadable_row r \<Longrightarrow> insertable r"
  by (simp add: loadable_row_def)

lemma get_data_ok:
  assumes "available w" "dados w = Some t"
  shows "get_data w = (Inr (DataFrame t), w)"
  using assms by (simp add: get_data_def get_connection_def select_all_def close_def)

lemma get_data_unavailable: "\<not> available w \<Longrightarrow> get_data w = (Inl ConnectionError, w)"
  by (simp add: get_data_def get_connection_def)

lemma get_data_no_table:
  "available w \<Longrightarrow> dados w = None \<Longrightarrow>
   get_data w = (Inl UndefinedTable, w\<lparr>open_conns := open_conns w + 1\<rparr>)"
  by (simp add: get_data_def get_connection_def select_all_def)

section \<open>Round trip\<close>

text \<open>
  C1, as stated, fails: after the scenario is loaded, the frame \<open>get_data\<close> returns has
  four columns, the key \<^verbatim>\<open>id\<close> first, and its rows are not the parsed rows.
\<close>

theorem roundtrip_counterexample:
  "load_csv_to_postgres (Parsed scenario_df) store_one =
     (Inr (), \<lparr>available = True,
               dados = Some [\<lparr>id_key = 2, coluna1 = py ''a'', coluna2 = py ''x'', valor = 1\<rparr>,
                             \<lparr>id_key = 3, coluna1 = py ''b'', coluna2 = py ''y'', valor = 2\<rparr>,
                             \<lparr>id_key = 4, coluna1 = py ''a'', coluna2 = py ''y'', valor = 3\<rparr>],
               dados_id_seq = 5, open_conns = 0\<rparr>)
   \<and> fst (get_data \<lparr>available = True,
               dados = Some [\<lparr>id_key = 2, coluna1 = py ''a'', coluna2 = py ''x'', valor = 1\<rparr>,
                             \<lparr>id_key = 3, coluna1 = py ''b'', coluna2 = py ''y'', valor = 2\<rparr>,
                             \<lparr>id_key = 4, coluna1 = py ''a'', coluna2 = py ''y'', valor = 3\<rparr>],
               dados_id_seq = 5, open_conns = 0\<rparr>) =
       Inr \<lparr>columns = [py ''id'', py ''coluna1'', py ''coluna2'', py ''valor''],
            rows = [[PInt 2, PStr (py ''a''), PStr (py ''x''), PInt 1],
                    [PInt 3, PStr (py ''b''), PStr (py ''y''), PInt 2],
                    [PInt 4, PStr (py ''a''), PStr (py ''y''), PInt 3]]\<rparr>
   \<and> [py ''id'', py ''coluna1'', py ''coluna2'', py ''valor''] \<noteq> columns scenario_df
   \<and> [[PInt 2, PStr (py ''a''), PStr (py ''x''), PInt 1],
       [PInt 3, PStr (py ''b''), PStr (py ''y''), PInt 2],
       [PInt 4, PStr (py ''a''), PStr (py ''y''), PInt 3]] \<noteq> rows scenario_df"
  by (simp add: load_csv_to_postgres_def get_connection_def create_table_def commit_def
      delete_all_def close_def insert_row_def row_get_def store_one_def scenario_df_def
      int64_rows_def get_data_def select_all_def DataFrame_def row_cells_def)

text \<open>
  C1, amended. For every well-formed input (three columns, the third of integers, not all
  three columns numeric) and every available store, \<open>load_csv_to_postgres\<close> succeeds,
  \<open>get_data\<close> then succeeds, and the frame it returns has one row per parsed row, in
  the order of the input: the key, taken from the sequence in that order, then the first
  two cells as text (a cell pandas read as a number comes back as its decimal text), then
  the value. When the input has a row, the columns are \<^verbatim>\<open>id\<close>, \<^verbatim>\<open>coluna1\<close>,
  \<^verbatim>\<open>coluna2\<close>, \<^verbatim>\<open>valor\<close>.
\<close>

theorem ingest_then_fetch:
  assumes "available w" "well_formed df"
  shows "\<exists>w1 data. load_csv_to_postgres (Parsed df) w = (Inr (), w1)
           \<and> get_data w1 = (Inr data, w1)
           \<and> rows data
               = map (\<lambda>k. [PInt (dados_id_seq w + int k), PStr (to_text (rows df ! k ! 0)),
                            PStr (to_text (rows df ! k ! 1)), rows df ! k ! 2])
                     [0..<length (rows df)]
           \<and> (rows df \<noteq> [] \<longrightarrow>
                 columns data = [py ''id'', py ''coluna1'', py ''coluna2'', py ''valor''])"
proof -
  from assms(2) have rr: "list_all record_row (rows df)" and np: "\<not> int64_rows df"
    by (simp_all add: well_formed_def)
  from rr have ins: "list_all insertable (rows df)"
    by (simp add: list_all_iff record_row_insertable)
  let ?t = "stored (dados_id_seq w) (rows df)"
  let ?w1 = "w\<lparr>dados := Some ?t, dados_id_seq := dados_id_seq w + int (length (rows df))\<rparr>"
  have l: "load_csv_to_postgres (Parsed df) w = (Inr (), ?w1)"
    by (rule load_success[OF assms(1) ins np])
  have g: "get_data ?w1 = (Inr (DataFrame ?t), ?w1)"
    by (rule get_data_ok) (simp_all add: assms(1))
  have e: "?t = [] \<longleftrightarrow> rows df = []" by (cases "rows df") simp_all
  have "rows (DataFrame ?t) = map row_cells ?t" by (simp add: DataFrame_def)
  with stored_record_rows [OF rr, of "dados_id_seq w"]
  have r: "rows (DataFrame ?t)
               = map (\<lambda>k. [PInt (dados_id_seq w + int k), PStr (to_text (rows df ! k ! 0)),
                            PStr (to_text (rows df ! k ! 1)), rows df ! k ! 2])
                     [0..<length (rows df)]" by simp
  have c: "rows df \<noteq> [] \<longrightarrow>
                 columns (DataFrame ?t) = [py ''id'', py ''coluna1'', py ''coluna2'', py ''valor'']"
    using e by (simp add: DataFrame_def)
  from l g r c show ?thesis by blast
qed

theorem ingest_then_fetch_witness:
  "available store_one \<and> well_formed scenario_df \<and> well_formed numeric_text_df
   \<and> (\<exists>w1 data. load_csv_to_postgres (Parsed scenario_df) store_one = (Inr (), w1)
        \<and> get_data w1 = (Inr data, w1)
        \<and> rows data = [[PInt 2, PStr (py ''a''), PStr (py ''x''), PInt 1],
                        [PInt 3, PStr (py ''b''), PStr (py ''y''), PInt 2],
                        [PInt 4, PStr (py ''a''), PStr (py ''y''), PInt 3]]
        \<and> columns data = [py ''id'', py ''coluna1'', py ''coluna2'', py ''valor''])
   \<and> (\<exists>w1 data. load_csv_to_postgres (Parsed numeric_text_df) store_one = (Inr (), w1)
        \<and> get_data w1 = (Inr data, w1)
        \<and> rows data = [[PInt 2, PStr (py ''1''), PStr (py ''x''), PInt 5]])"
proof -
  have a: "available store_one" by (simp add: store_one_def)
  have s: "well_formed scenario_df"
    by (simp add: well_formed_def scenario_df_def int64_rows_def plain_def py_def)
  have n: "well_formed numeric_text_df"
    by (simp add: well_formed_def numeric_text_df_def int64_rows_def plain_def py_def)
  have d: "str_int 1 = py ''1''" by (simp add: str_int_def digits.simps py_def)
  have q: "dados_id_seq store_one = 2" by (simp add: store_one_def)
  have u3: "[0..<3] = [0, 1, 2]" by (simp add: upt_rec)
  from ingest_then_fetch [OF a s]
  have 1: "\<exists>w1 data. load_csv_to_postgres (Parsed scenario_df) store_one = (Inr (), w1)
        \<and> get_data w1 = (Inr data, w1)
        \<and> rows data = [[PInt 2, PStr (py ''a''), PStr (py ''x''), PInt 1],
                        [PInt 3, PStr (py ''b''), PStr (py ''y''), PInt 2],
                        [PInt 4, PStr (py ''a''), PStr (py ''y''), PInt 3]]
        \<and> columns data = [py ''id'', py ''coluna1'', py ''coluna2'', py ''valor'']"
    by (simp add: scenario_df_def q u3)
  from ingest_then_fetch [OF a n]
  have 2: "\<exists>w1 data. load_csv_to_postgres (Parsed numeric_text_df) store_one = (Inr (), w1)
        \<and> get_data w1 = (Inr data, w1)
        \<and> rows data = [[PInt 2, PStr (py ''1''), PStr (py ''x''), PInt 5]]"
    by (auto simp: numeric_text_df_def q d)
  from a s n 1 2 show ?thesis by simp
qed

section \<open>The query\<close>

text \<open>
  C3, as stated, fails: the frame \<open>get_data\<close> returns has the four columns of
  \<^verbatim>\<open>SELECT *\<close>, the key \<^verbatim>\<open>id\<close> first, not the three data columns alone.
\<close>

theorem get_data_columns_counterexample:
  "fst (get_data store_one) =
     Inr \<lparr>columns = [py ''id'', py ''coluna1'', py ''coluna2'', py ''valor''],
          rows = [[PInt 1, PStr (py ''old''), PStr (py ''row''), PInt 7]]\<rparr>
   \<and> [py ''id'', py ''coluna1'', py ''coluna2'', py ''valor'']
       \<noteq> [py ''coluna1'', py ''coluna2'', py ''valor'']"
  by (simp add: get_data_def get_connection_def select_all_def close_def DataFrame_def
      row_cells_def store_one_def)

text \<open>
  C3, amended. On an available store whose table exists, \<open>get_data\<close> succeeds and
  leaves the store as it was; the frame has one row per stored row, in insertion order,
  each row the key followed by the three fields; when the table has at least one row
  the columns are exactly \<^verbatim>\<open>id\<close>, \<^verbatim>\<open>coluna1\<close>, \<^verbatim>\<open>coluna2\<close>, \<^verbatim>\<open>valor\<close>; an empty
  table gives a frame without rows, not an error.
\<close>

theorem get_data_reads_table:
  assumes "available w" "dados w = Some t"
  shows "\<exists>df. get_data w = (Inr df, w)
           \<and> rows df = map (\<lambda>r. [PInt (id_key r), PStr (coluna1 r), PStr (coluna2 r),
                                  PInt (valor r)]) t
           \<and> (t \<noteq> [] \<longrightarrow> columns df = [py ''id'', py ''coluna1'', py ''coluna2'', py ''valor''])"
  using get_data_ok [OF assms]
  by (auto simp: DataFrame_def row_cells_def)

theorem get_data_reads_table_witness:
  "available store_one \<and> dados store_one = Some [\<lparr>id_key = 1, coluna1 = py ''old'', coluna2 = py ''row'', valor = 7\<rparr>]
   \<and> (\<exists>df. get_data store_one = (Inr df, store_one)
           \<and> rows df = [[PInt 1, PStr (py ''old''), PStr (py ''row''), PInt 7]]
           \<and> columns df = [py ''id'', py ''coluna1'', py ''coluna2'', py ''valor''])"
  using get_data_reads_table [of store_one "[\<lparr>id_key = 1, coluna1 = py ''old'', coluna2 = py ''row'', valor = 7\<rparr>]"]
  by (simp add: store_one_def)

section \<open>A load that fails part-way\<close>

text \<open>
  C6, as stated, fails: in the file whose second row has the third cell \<^verbatim>\<open>abc\<close> the
  first row is inserted and the second is rejected, and the table is then left empty,
  not holding the first row. The delete was committed; the insert never is.
\<close>

theorem partial_load_counterexample:
  "load_csv_to_postgres (Parsed text_valor_df) store_one =
     (Inl DataError, \<lparr>available = True, dados = Some [], dados_id_seq = 3, open_conns = 1\<rparr>)
   \<and> Some [] \<noteq> Some (stored 2 (take 1 (rows text_valor_df)))"
  by code_simp

text \<open>
  C6, amended. The load is not atomic: when the rows \<open>good\<close> are inserted and the next
  row \<open>bad\<close> makes the loop raise, the load raises, and the table is left empty: the
  earlier contents are gone and none of the rows inserted so far is stored, so the table
  is neither the old one (if that had rows) nor the new one. A reader then gets the
  empty frame.
\<close>

theorem failed_load_leaves_table_empty:
  assumes "available w" "rows df = good @ bad # rest" "list_all insertable good"
    "\<not> insertable bad"
  shows "\<exists>e w'. load_csv_to_postgres (Parsed df) w = (Inl e, w')
           \<and> dados w' = Some []
           \<and> (dados w \<noteq> Some [] \<longrightarrow> dados w' \<noteq> dados w)
           \<and> (good \<noteq> [] \<longrightarrow> dados w' \<noteq> Some (stored (dados_id_seq w) good))
           \<and> get_data w' = (Inr \<lparr>columns = [], rows = []\<rparr>, w')"
proof -
  from assms(2,4) have "\<not> list_all insertable (rows df)" by simp
  from load_not_insertable [OF assms(1) this] obtain e w' where
    l: "load_csv_to_postgres (Parsed df) w = (Inl e, w')" by blast
  from load_raises [OF assms(1) l] have w': "dados w' = Some []" "available w'" by simp_all
  have "get_data w' = (Inr (DataFrame []), w')"
    by (rule get_data_ok) (simp_all add: w')
  moreover have "good \<noteq> [] \<longrightarrow> stored (dados_id_seq w) good \<noteq> []"
    by (cases good) simp_all
  ultimately show ?thesis using l w' by (auto simp: DataFrame_def)
qed

theorem failed_load_leaves_table_empty_witness:
  "available store_one
   \<and> rows text_valor_df = [[PStr (py ''a''), PStr (py ''x''), PStr (py ''1'')]]
        @ [PStr (py ''b''), PStr (py ''y''), PStr (py ''abc'')] # []
   \<and> list_all insertable [[PStr (py ''a''), PStr (py ''x''), PStr (py ''1'')]]
   \<and> \<not> insertable [PStr (py ''b''), PStr (py ''y''), PStr (py ''abc'')]
   \<and> (\<exists>e w'. load_csv_to_postgres (Parsed text_valor_df) store_one = (Inl e, w')
           \<and> dados w' = Some []
           \<and> dados w' \<noteq> dados store_one
           \<and> get_data w' = (Inr \<lparr>columns = [], rows = []\<rparr>, w'))"
proof -
  have h: "available store_one"
    "rows text_valor_df = [[PStr (py ''a''), PStr (py ''x''), PStr (py ''1'')]]
        @ [PStr (py ''b''), PStr (py ''y''), PStr (py ''abc'')] # []"
    "list_all insertable [[PStr (py ''a''), PStr (py ''x''), PStr (py ''1'')]]"
    "\<not> insertable [PStr (py ''b''), PStr (py ''y''), PStr (py ''abc'')]"
    by code_simp+
  have "dados store_one \<noteq> Some []" by (simp add: store_one_def)
  with failed_load_leaves_table_empty [OF h] h show ?thesis by force
qed

section \<open>Which inputs the load rejects, and how\<close>

text \<open>
  C7, as stated, fails: a file with four columns is loaded (the fourth is ignored), no
  \<open>ParseError\<close> is raised.
\<close>

theorem four_columns_load_counterexample:
  "length (columns four_col_df) = 4
   \<and> load_csv_to_postgres (Parsed four_col_df) store_one =
       (Inr (), \<lparr>available = True,
                 dados = Some [\<lparr>id_key = 2, coluna1 = py ''a'', coluna2 = py ''x'', valor = 1\<rparr>],
                 dados_id_seq = 3, open_conns = 0\<rparr>)"
  by code_simp

text \<open>
  C7, amended. On an available store the load raises \<open>ParseError\<close> exactly when the
  parser rejects the file. Neither the number of columns nor the third column is checked
  when the file is parsed. A parsed input that is not made of integer columns only, and
  whose every row has at least three cells, the third one an integer or the text of one,
  is loaded, whatever its number of columns. An input with a row and fewer than three
  columns raises \<open>IndexError\<close>; at the first row whose third cell is a text that is not
  a number the load raises the database's \<open>DataError\<close>; an input of three or more
  columns that are all integer columns raises \<open>ProgrammingError\<close>. In these three
  cases the table was emptied before and is left empty.
\<close>

theorem load_errors:
  assumes "available w"
  shows "(fst (load_csv_to_postgres f w) = Inl ParseError \<longleftrightarrow> f = Malformed)
       \<and> (loadable df \<longrightarrow> fst (load_csv_to_postgres (Parsed df) w) = Inr ())
       \<and> (frame_ok df \<and> rows df \<noteq> [] \<and> length (columns df) < 3 \<longrightarrow>
             fst (load_csv_to_postgres (Parsed df) w) = Inl IndexError
             \<and> dados (snd (load_csv_to_postgres (Parsed df) w)) = Some [])
       \<and> (rows df = good @ bad # rest \<and> list_all loadable_row good \<and> 2 < length bad
             \<and> sendable (bad ! 0) \<and> sendable (bad ! 1) \<and> bad ! 2 = PStr s \<and> plain s
             \<and> not_numeric s \<longrightarrow>
             fst (load_csv_to_postgres (Parsed df) w) = Inl DataError
             \<and> dados (snd (load_csv_to_postgres (Parsed df) w)) = Some [])
       \<and> (frame_ok df \<and> int64_rows df \<and> 2 < length (columns df) \<longrightarrow>
             fst (load_csv_to_postgres (Parsed df) w) = Inl ProgrammingError
             \<and> dados (snd (load_csv_to_postgres (Parsed df) w)) = Some [])"
proof (intro conjI impI)
  show "fst (load_csv_to_postgres f w) = Inl ParseError \<longleftrightarrow> f = Malformed"
  proof (cases f)
    case Malformed
    then show ?thesis by (simp add: load_malformed)
  next
    case (Parsed d)
    obtain res w' where l: "load_csv_to_postgres (Parsed d) w = (res, w')"
      by (cases "load_csv_to_postgres (Parsed d) w")
    show ?thesis
    proof (cases res)
      case (Inl e)
      with load_raises [OF assms, of d e w'] l Parsed show ?thesis by simp
    next
      case (Inr u)
      with l Parsed show ?thesis by simp
    qed
  qed
next
  assume "loadable df"
  then have "list_all insertable (rows df)" "\<not> int64_rows df"
    by (simp_all add: loadable_def list_all_iff loadable_row_insertable)
  from load_success [OF assms this]
  show "fst (load_csv_to_postgres (Parsed df) w) = Inr ()" by simp
next
  assume a: "frame_ok df \<and> rows df \<noteq> [] \<and> length (columns df) < 3"
  then obtain r rs where r: "rows df = r # rs" by (cases "rows df") simp_all
  with a have "length r < 3" by (simp add: frame_ok_def)
  from load_short [OF assms r this] obtain w' where
    l: "load_csv_to_postgres (Parsed df) w = (Inl IndexError, w')" by blast
  from load_raises [OF assms l] l
  show "fst (load_csv_to_postgres (Parsed df) w) = Inl IndexError"
    and "dados (snd (load_csv_to_postgres (Parsed df) w)) = Some []" by simp_all
next
  assume a: "rows df = good @ bad # rest \<and> list_all loadable_row good \<and> 2 < length bad
             \<and> sendable (bad ! 0) \<and> sendable (bad ! 1) \<and> bad ! 2 = PStr s \<and> plain s
             \<and> not_numeric s"
  then have rws: "rows df = good @ bad # rest" and g: "list_all insertable good"
    and b: "2 < length bad" "bad ! 2 = PStr s" "not_numeric s"
    by (simp_all add: list_all_iff loadable_row_insertable)
  from b not_numeric_rejected [of s] have nb: "\<not> insertable bad"
    by (simp add: insertable_def)
  have "\<not> list_all is_int bad"
    using b(1,2) by (auto simp: list_all_length)
  with rws have np: "\<not> int64_rows df" by (simp add: int64_rows_def)
  from load_failure [OF assms rws g nb np] b(1) obtain w' where
    l: "load_csv_to_postgres (Parsed df) w = (Inl DataError, w')" by auto
  from load_raises [OF assms l] l
  show "fst (load_csv_to_postgres (Parsed df) w) = Inl DataError"
    and "dados (snd (load_csv_to_postgres (Parsed df) w)) = Some []" by simp_all
next
  assume a: "frame_ok df \<and> int64_rows df \<and> 2 < length (columns df)"
  then obtain r rs where r: "rows df = r # rs"
    by (cases "rows df") (simp_all add: int64_rows_def)
  with a have "2 < length r" by (simp add: frame_ok_def)
  from a load_numpy [OF assms _ r this] obtain w' where
    l: "load_csv_to_postgres (Parsed df) w = (Inl ProgrammingError, w')" by blast
  from load_raises [OF assms l] l
  show "fst (load_csv_to_postgres (Parsed df) w) = Inl ProgrammingError"
    and "dados (snd (load_csv_to_postgres (Parsed df) w)) = Some []" by simp_all
qed

theorem load_errors_witness:
  "available store_one
   \<and> fst (load_csv_to_postgres Malformed store_one) = Inl ParseError
   \<and> fst (load_csv_to_postgres (Parsed four_col_df) store_one) = Inr ()
   \<and> fst (load_csv_to_postgres (Parsed two_col_df) store_one) = Inl IndexError
   \<and> dados (snd (load_csv_to_postgres (Parsed two_col_df) store_one)) = Some []
   \<and> fst (load_csv_to_postgres (Parsed text_valor_df) store_one) = Inl DataError
   \<and> dados (snd (load_csv_to_postgres (Parsed text_valor_df) store_one)) = Some []
   \<and> fst (load_csv_to_postgres (Parsed int_df) store_one) = Inl ProgrammingError
   \<and> dados (snd (load_csv_to_postgres (Parsed int_df) store_one)) = Some []"
proof -
  have a: "available store_one" by (simp add: store_one_def)
  have four: "loadable four_col_df"
    by (simp add: four_col_df_def loadable_def loadable_row_def insertable_def int64_rows_def
        plain_def py_def)
  have two: "frame_ok two_col_df \<and> rows two_col_df \<noteq> [] \<and> length (columns two_col_df) < 3"
    by (simp add: two_col_df_def frame_ok_def)
  have tx: "rows text_valor_df = [[PStr (py ''a''), PStr (py ''x''), PStr (py ''1'')]]
        @ [PStr (py ''b''), PStr (py ''y''), PStr (py ''abc'')] # []
      \<and> list_all loadable_row [[PStr (py ''a''), PStr (py ''x''), PStr (py ''1'')]]
      \<and> 2 < length [PStr (py ''b''), PStr (py ''y''), PStr (py ''abc'')]
      \<and> sendable ([PStr (py ''b''), PStr (py ''y''), PStr (py ''abc'')] ! 0)
      \<and> sendable ([PStr (py ''b''), PStr (py ''y''), PStr (py ''abc'')] ! 1)
      \<and> [PStr (py ''b''), PStr (py ''y''), PStr (py ''abc'')] ! 2 = PStr (py ''abc'')
      \<and> plain (py ''abc'') \<and> not_numeric (py ''abc'')"
    by (simp add: text_valor_df_def loadable_row_def insertable_def numeric_in_def
        strip_blanks_def is_blank_def unsigned_in_def is_digit_def digits_val_def plain_def
        not_numeric_def py_def)
  have nm: "frame_ok int_df \<and> int64_rows int_df \<and> 2 < length (columns int_df)"
    by (simp add: int_df_def frame_ok_def int64_rows_def)
  from load_errors [OF a, where f = Malformed]
  have r0: "fst (load_csv_to_postgres Malformed store_one) = Inl ParseError" by simp
  from load_errors [OF a, where df = four_col_df] four
  have r1: "fst (load_csv_to_postgres (Parsed four_col_df) store_one) = Inr ()" by simp
  from load_errors [OF a, where df = two_col_df] two
  have r2: "fst (load_csv_to_postgres (Parsed two_col_df) store_one) = Inl IndexError
      \<and> dados (snd (load_csv_to_postgres (Parsed two_col_df) store_one)) = Some []"
    by simp
  from load_errors [OF a, where df = text_valor_df
      and good = "[[PStr (py ''a''), PStr (py ''x''), PStr (py ''1'')]]"
      and bad = "[PStr (py ''b''), PStr (py ''y''), PStr (py ''abc'')]" and rest = "[]"
      and s = "py ''abc''"] tx
  have r3: "fst (load_csv_to_postgres (Parsed text_valor_df) store_one) = Inl DataError
      \<and> dados (snd (load_csv_to_postgres (Parsed text_valor_df) store_one)) = Some []"
    by blast
  from load_errors [OF a, where df = int_df] nm
  have r4: "fst (load_csv_to_postgres (Parsed int_df) store_one) = Inl ProgrammingError
      \<and> dados (snd (load_csv_to_postgres (Parsed int_df) store_one)) = Some []"
    by simp
  from a r0 r1 r2 r3 r4 show ?thesis by simp
qed

section \<open>Connections\<close>

text \<open>
  C9. The load whose second row is rejected raises \<open>DataError\<close> and, when it exits,
  the connection it opened is still open; so is the connection of a query on a database
  without the table. Neither function closes its connection on an exit by exception.
\<close>

theorem connection_left_open:
  "open_conns store_one = 0
   \<and> fst (load_csv_to_postgres (Parsed text_valor_df) store_one) = Inl DataError
   \<and> open_conns (snd (load_csv_to_postgres (Parsed text_valor_df) store_one)) = 1
   \<and> open_conns store_fresh = 0
   \<and> fst (get_data store_fresh) = Inl UndefinedTable
   \<and> open_conns (snd (get_data store_fresh)) = 1"
  by code_simp

section \<open>The filter keeps exactly the matching rows\<close>

text \<open>
  C2. On every frame that has the columns \<^verbatim>\<open>coluna1\<close> and \<^verbatim>\<open>coluna2\<close>, for every
  pair of filter values, the filter succeeds and keeps exactly the rows whose cell in
  each constrained column (value other than \<^verbatim>\<open>"Todos"\<close>) is equal to the value: plain
  equality of cells, both constraints at once, columns and order of the rows unchanged.
  When a constrained value occurs in no row the result is the view without rows, not an
  error.
\<close>

theorem filter_exact:
  assumes "index_of (py ''coluna1'') (columns df) = Some i"
    and "index_of (py ''coluna2'') (columns df) = Some j"
  shows "df_filtrado df f1 f2 =
           Inr (df\<lparr>rows := filter (\<lambda>r. (f1 = Todos \<or> row_get r i = Inr f1)
                                       \<and> (f2 = Todos \<or> row_get r j = Inr f2)) (rows df)\<rparr>)
       \<and> ((f1 \<noteq> Todos \<and> (\<forall>r\<in>set (rows df). row_get r i \<noteq> Inr f1))
            \<or> (f2 \<noteq> Todos \<and> (\<forall>r\<in>set (rows df). row_get r j \<noteq> Inr f2))
          \<longrightarrow> df_filtrado df f1 f2 = Inr (df\<lparr>rows := []\<rparr>))"
proof -
  have eq: "df_filtrado df f1 f2 =
           Inr (df\<lparr>rows := filter (\<lambda>r. (f1 = Todos \<or> row_get r i = Inr f1)
                                       \<and> (f2 = Todos \<or> row_get r j = Inr f2)) (rows df)\<rparr>)"
    using assms by (simp add: df_filtrado_def select_eq_def)
  moreover have "(f1 \<noteq> Todos \<and> (\<forall>r\<in>set (rows df). row_get r i \<noteq> Inr f1))
            \<or> (f2 \<noteq> Todos \<and> (\<forall>r\<in>set (rows df). row_get r j \<noteq> Inr f2))
     \<Longrightarrow> filter (\<lambda>r. (f1 = Todos \<or> row_get r i = Inr f1)
                                       \<and> (f2 = Todos \<or> row_get r j = Inr f2)) (rows df) = []"
    by (auto simp: filter_empty_conv)
  ultimately show ?thesis by auto
qed

theorem filter_exact_witness:
  "index_of (py ''coluna1'') (columns scenario_table) = Some 1
   \<and> index_of (py ''coluna2'') (columns scenario_table) = Some 2
   \<and> df_filtrado scenario_table (PStr (py ''a'')) Todos =
       Inr (scenario_table\<lparr>rows := [[PInt 1, PStr (py ''a''), PStr (py ''x''), PInt 1],
                                     [PInt 3, PStr (py ''a''), PStr (py ''y''), PInt 3]]\<rparr>)
   \<and> df_filtrado scenario_table (PStr (py ''A'')) Todos = Inr (scenario_table\<lparr>rows := []\<rparr>)
   \<and> df_filtrado scenario_table (PStr (py ''b'')) (PStr (py ''x'')) = Inr (scenario_table\<lparr>rows := []\<rparr>)"
proof -
  have h: "index_of (py ''coluna1'') (columns scenario_table) = Some 1"
    "index_of (py ''coluna2'') (columns scenario_table) = Some 2"
    by (simp_all add: scenario_table_def py_def)
  have r: "rows scenario_table = [[PInt 1, PStr (py ''a''), PStr (py ''x''), PInt 1],
              [PInt 2, PStr (py ''b''), PStr (py ''y''), PInt 2],
              [PInt 3, PStr (py ''a''), PStr (py ''y''), PInt 3]]"
    by (simp add: scenario_table_def)
  from filter_exact [OF h, of "PStr (py ''a'')" Todos]
  have 1: "df_filtrado scenario_table (PStr (py ''a'')) Todos =
       Inr (scenario_table\<lparr>rows := [[PInt 1, PStr (py ''a''), PStr (py ''x''), PInt 1],
                                     [PInt 3, PStr (py ''a''), PStr (py ''y''), PInt 3]]\<rparr>)"
    by (simp add: r Todos_def row_get_def py_def)
  from filter_exact [OF h, of "PStr (py ''A'')" Todos]
  have 2: "df_filtrado scenario_table (PStr (py ''A'')) Todos = Inr (scenario_table\<lparr>rows := []\<rparr>)"
    by (simp add: r Todos_def row_get_def py_def)
  from filter_exact [OF h, of "PStr (py ''b'')" "PStr (py ''x'')"]
  have 3: "df_filtrado scenario_table (PStr (py ''b'')) (PStr (py ''x'')) = Inr (scenario_table\<lparr>rows := []\<rparr>)"
    by (simp add: r Todos_def row_get_def py_def)
  from h 1 2 3 show ?thesis by simp
qed

section \<open>What the renderer does\<close>

text \<open>Each loop of \<open>to_pdf\<close> succeeds exactly when all its texts are Latin-1.\<close>

lemma cell_latin1:
  "latin1 txt \<Longrightarrow> \<exists>pdf'. cell w h txt b pdf = Inr pdf'"
  by (simp add: cell_def normalize_text_def)

lemma cell_not_latin1:
  "\<not> latin1 txt \<Longrightarrow> cell w h txt b pdf = Inl FPDFUnicodeEncodingException"
  by (simp add: cell_def normalize_text_def)

lemma header_cells_result:
  "if list_all latin1 cols then (\<exists>pdf'. header_cells cw lh cols pdf = Inr pdf')
   else header_cells cw lh cols pdf = Inl FPDFUnicodeEncodingException"
proof (induction cols arbitrary: pdf)
  case Nil
  then show ?case by simp
next
  case (Cons col cols)
  show ?case
  proof (cases "latin1 col")
    case True
    from cell_latin1 [OF True] obtain p where "cell cw lh col 1 pdf = Inr p" by blast
    with Cons [of p] True show ?thesis by simp
  next
    case False
    with cell_not_latin1 [OF False] show ?thesis by simp
  qed
qed

lemma row_items_result:
  "if list_all latin1 (map str row) then (\<exists>pdf'. row_items cw lh row pdf = Inr pdf')
   else row_items cw lh row pdf = Inl FPDFUnicodeEncodingException"
proof (induction row arbitrary: pdf)
  case Nil
  then show ?case by simp
next
  case (Cons item items)
  show ?case
  proof (cases "latin1 (str item)")
    case True
    from cell_latin1 [OF True] obtain p where "cell cw lh (str item) 1 pdf = Inr p" by blast
    with Cons [of p] True show ?thesis by simp
  next
    case False
    with cell_not_latin1 [OF False] show ?thesis by simp
  qed
qed

lemma frame_rows_result:
  "if list_all latin1 (map str (concat rws)) then (\<exists>pdf'. frame_rows cw lh rws pdf = Inr pdf')
   else frame_rows cw lh rws pdf = Inl FPDFUnicodeEncodingException"
proof (induction rws arbitrary: pdf)
  case Nil
  then show ?case by simp
next
  case (Cons row rws)
  show ?case
  proof (cases "list_all latin1 (map str row)")
    case True
    with row_items_result [of row cw lh pdf] obtain p where
      "row_items cw lh row pdf = Inr p" by auto
    with Cons [of "ln_pdf lh p"] True show ?thesis by simp
  next
    case False
    with row_items_result [of row cw lh pdf] show ?thesis by simp
  qed
qed

text \<open>
  On a frame that has a column \<open>to_pdf\<close> never returns: it raises the encoding error
  of the first text that is not Latin-1, and \<open>AttributeError\<close> at its last line when
  all texts are Latin-1, also when the frame has no rows.
\<close>

lemma to_pdf_raises:
  assumes "columns df \<noteq> []"
  shows "to_pdf df =
           (if list_all latin1 (columns df) \<and> list_all latin1 (cell_texts df)
            then Inl AttributeError else Inl FPDFUnicodeEncodingException)"
proof -
  let ?pdf = "set_font (py ''Arial'') 12 (add_page FPDF)"
  let ?lh = "font_size ?pdf * 2"
  let ?cw = "epw ?pdf / of_nat (length (columns df))"
  have t: "to_pdf df =
     (case header_cells ?cw ?lh (columns df) ?pdf of
        Inl e \<Rightarrow> Inl e
      | Inr pdf1 \<Rightarrow>
     (case frame_rows ?cw ?lh (rows df) (ln_pdf ?lh pdf1) of
        Inl e \<Rightarrow> Inl e
      | Inr pdf2 \<Rightarrow> encode (output_S pdf2)))"
    using assms by (simp add: to_pdf_def truediv_def Let_def)
  show ?thesis
  proof (cases "list_all latin1 (columns df)")
    case False
    with header_cells_result [of "columns df" ?cw ?lh ?pdf] t show ?thesis by simp
  next
    case True
    with header_cells_result [of "columns df" ?cw ?lh ?pdf] obtain p1 where
      p1: "header_cells ?cw ?lh (columns df) ?pdf = Inr p1" by auto
    show ?thesis
    proof (cases "list_all latin1 (cell_texts df)")
      case False
      with frame_rows_result [of "rows df" ?cw ?lh "ln_pdf ?lh p1"] t p1 True
      show ?thesis by (simp add: cell_texts_def)
    next
      case c: True
      with frame_rows_result [of "rows df" ?cw ?lh "ln_pdf ?lh p1"] obtain p2 where
        "frame_rows ?cw ?lh (rows df) (ln_pdf ?lh p1) = Inr p2"
        by (auto simp: cell_texts_def)
      with t p1 True c show ?thesis by (simp add: encode_def)
    qed
  qed
qed

lemma to_pdf_never_returns: "to_pdf df \<noteq> Inr document"
proof (cases "columns df = []")
  case True
  then show ?thesis by (simp add: to_pdf_def truediv_def)
next
  case False
  from to_pdf_raises [OF this] show ?thesis by (simp split: if_splits)
qed

lemma to_pdf_header_only_raises:
  assumes "columns df \<noteq> []" "list_all latin1 (columns df)" "rows df = []"
  shows "to_pdf df = Inl AttributeError"
  using to_pdf_raises [OF assms(1)] assms(2,3) by (simp add: cell_texts_def)

text \<open>
  C8. The frame \<open>get_data\<close> returns for an existing empty table has no columns, and
  \<open>to_pdf\<close> divides the page width by the number of columns: on that frame it raises
  \<open>ZeroDivisionError\<close> instead of returning a header-only document. A run of the
  script on that store does not get as far as the export: it raises \<open>KeyError\<close> when
  it reads the column \<^verbatim>\<open>coluna1\<close> for the first selector.
\<close>

theorem empty_store_pdf_raises:
  "get_data store_empty = (Inr \<lparr>columns = [], rows = []\<rparr>, store_empty)
   \<and> to_pdf \<lparr>columns = [], rows = []\<rparr> = Inl ZeroDivisionError
   \<and> outcome (main default_users view_run reader_session store_empty)
       = Raised (KeyError (py ''coluna1''))"
proof -
  have g: "get_data store_empty = (Inr \<lparr>columns = [], rows = []\<rparr>, store_empty)"
    by (simp add: get_data_def get_connection_def select_all_def close_def DataFrame_def
        store_empty_def)
  have p: "to_pdf \<lparr>columns = [], rows = []\<rparr> = Inl ZeroDivisionError"
    by (simp add: to_pdf_def truediv_def)
  have l: "login default_users view_run reader_session = (Continue, reader_session)"
    by (simp add: login_def reader_session_def)
  have r: "check_role reader_session = Inr (py ''reader'')"
    by (simp add: check_role_def role_map_def reader_session_def py_def)
  have u: "admin_upload (py ''reader'') (upload view_run) store_empty = (Inr (), store_empty, [])"
    by (simp add: admin_upload_def py_def)
  have d: "dashboard view_run \<lparr>columns = [], rows = []\<rparr> = Inl (KeyError (py ''coluna1''))"
    by (simp add: dashboard_def getitem_def)
  have "outcome (main default_users view_run reader_session store_empty)
       = Raised (KeyError (py ''coluna1''))"
    by (simp add: main_def l r u g d)
  with g p show ?thesis by simp
qed

text \<open>
  C10. On every frame (each row with one cell per column) in which the text of some cell
  has a code point that Latin-1 cannot encode, \<open>to_pdf\<close> raises the encoding error and
  returns no document.
\<close>

theorem to_pdf_latin1:
  assumes "frame_ok df" "\<not> list_all latin1 (cell_texts df)"
  shows "to_pdf df = Inl FPDFUnicodeEncodingException \<and> to_pdf df \<noteq> Inr document"
proof -
  from assms(2) obtain r x where "r \<in> set (rows df)" "x \<in> set r"
    by (auto simp: cell_texts_def list_all_iff)
  then have r: "r \<in> set (rows df)" "r \<noteq> []" by auto
  with assms(1) have "columns df \<noteq> []"
    by (auto simp: frame_ok_def list_all_iff)
  from to_pdf_raises [OF this] assms(2) show ?thesis by simp
qed

theorem to_pdf_latin1_witness:
  "frame_ok euro_df \<and> \<not> list_all latin1 (cell_texts euro_df)
   \<and> to_pdf euro_df = Inl FPDFUnicodeEncodingException"
proof -
  have e: "frame_ok euro_df" "\<not> list_all latin1 (cell_texts euro_df)"
    by code_simp+
  from to_pdf_latin1 [OF e] e show ?thesis by simp
qed

section \<open>The access gate\<close>

text \<open>
  A run that \<open>login\<close> does not let through calls nothing and leaves the store alone; a
  run of a logged-in session keeps the session; a query never changes the table.
\<close>

lemma get_data_dados:
  "dados (snd (get_data w)) = dados w \<and> dados_id_seq (snd (get_data w)) = dados_id_seq w"
  by (simp add: get_data_def get_connection_def select_all_def close_def split: option.splits)

lemma login_continue:
  "fst (login us inp s) = Continue \<longleftrightarrow> logged_in s = Some True"
  by (simp add: login_def Let_def)

lemma login_logged_in: "logged_in s = Some True \<Longrightarrow> login us inp s = (Continue, s)"
  by (simp add: login_def Let_def)

lemma main_gate_closed:
  assumes "logged_in s \<noteq> Some True"
  shows "(outcome (main us inp s w) = Stopped \<or> outcome (main us inp s w) = Rerun_requested)
       \<and> calls (main us inp s w) = [] \<and> store (main us inp s w) = w
       \<and> session (main us inp s w) = snd (login us inp s)"
  using assms by (simp add: main_def login_def Let_def)

lemma main_session_logged_in:
  "logged_in s = Some True \<Longrightarrow> session (main us inp s w) = s"
  by (simp add: main_def login_logged_in split: sum.splits prod.splits)

lemma main_calls_load:
  assumes "logged_in s = Some True" "Call_load_csv_to_postgres \<in> set (calls (main us inp s w))"
  shows "check_role s = Inr (py ''admin'')"
  using assms
  by (auto simp: main_def login_logged_in admin_upload_def
      split: sum.splits prod.splits if_splits option.splits)

lemma main_not_admin_store:
  assumes "check_role s \<noteq> Inr (py ''admin'')"
  shows "dados (store (main us inp s w)) = dados w
       \<and> dados_id_seq (store (main us inp s w)) = dados_id_seq w"
proof (cases "logged_in s = Some True")
  case False
  from main_gate_closed [OF this] show ?thesis by simp
next
  case True
  show ?thesis
    using assms get_data_dados [of w]
    by (auto simp: main_def login_logged_in [OF True] admin_upload_def finalize_def
        split: sum.splits prod.splits)
qed

text \<open>After a run, whatever it raised, no connection it opened is left open.\<close>

lemma run_closes_connections: "open_conns (store (main us inp s w)) = open_conns w"
proof (cases "logged_in s = Some True")
  case False
  from main_gate_closed [OF this] show ?thesis by simp
next
  case True
  show ?thesis
    using load_conns [where f = "the (upload inp)" and w = w]
      get_data_conns [where w = w]
      get_data_conns [where w = "fst (snd (admin_upload (py ''admin'') (upload inp) w))"]
    by (auto simp: main_def login_logged_in [OF True] admin_upload_def finalize_def
        split: sum.splits prod.splits option.splits if_splits)
qed

text \<open>The administrator's run with a file in the uploader does load it.\<close>

lemma admin_run_ingests:
  "calls (main default_users upload_run admin_session store_one)
     = [Call_load_csv_to_postgres, Call_get_data]
   \<and> dados (store (main default_users upload_run admin_session store_one))
     = Some [\<lparr>id_key = 2, coluna1 = py ''a'', coluna2 = py ''x'', valor = 1\<rparr>,
             \<lparr>id_key = 3, coluna1 = py ''b'', coluna2 = py ''y'', valor = 2\<rparr>,
             \<lparr>id_key = 4, coluna1 = py ''a'', coluna2 = py ''y'', valor = 3\<rparr>]"
  by code_simp

text \<open>
  C4. In every run of the script, from any session and store and with any input, if the
  role of the session is not \<^verbatim>\<open>admin\<close> (it is \<^verbatim>\<open>reader\<close> or \<^verbatim>\<open>analyst\<close>, or there is
  no user) then the run never calls \<open>load_csv_to_postgres\<close>, and the table and its
  sequence are after the run what they were before.
\<close>

theorem ingest_only_admin:
  assumes "check_role s \<noteq> Inr (py ''admin'')"
  shows "Call_load_csv_to_postgres \<notin> set (calls (main us inp s w))
       \<and> dados (store (main us inp s w)) = dados w
       \<and> dados_id_seq (store (main us inp s w)) = dados_id_seq w"
proof (cases "logged_in s = Some True")
  case False
  from main_gate_closed [OF this] main_not_admin_store [OF assms] show ?thesis by simp
next
  case True
  from main_calls_load [OF True] assms main_not_admin_store [OF assms] show ?thesis by blast
qed

theorem ingest_only_admin_witness:
  "check_role analyst_session \<noteq> Inr (py ''admin'')
   \<and> check_role reader_session \<noteq> Inr (py ''admin'')
   \<and> Call_load_csv_to_postgres \<notin> set (calls (main default_users upload_run analyst_session store_one))
   \<and> dados (store (main default_users upload_run analyst_session store_one)) = dados store_one
   \<and> Call_load_csv_to_postgres \<notin> set (calls (main default_users upload_run reader_session store_one))
   \<and> dados (store (main default_users upload_run reader_session store_one)) = dados store_one"
proof -
  have a: "check_role analyst_session \<noteq> Inr (py ''admin'')"
    and r: "check_role reader_session \<noteq> Inr (py ''admin'')"
    by (simp_all add: check_role_def role_map_def analyst_session_def reader_session_def py_def)
  from ingest_only_admin [OF a, of default_users upload_run store_one]
       ingest_only_admin [OF r, of default_users upload_run store_one] a r
  show ?thesis by simp
qed

text \<open>
  From a new session, the user of a logged-in session is always one the dictionary
  \<^verbatim>\<open>users\<close> knows, and while no valid pair of user name and password is presented the
  session stays logged out.
\<close>

lemma login_known:
  assumes "logged_in s = Some True \<longrightarrow> (\<exists>u p. user s = Some u \<and> us u = Some p)"
  shows "logged_in (snd (login us inp s)) = Some True \<longrightarrow>
           (\<exists>u p. user (snd (login us inp s)) = Some u \<and> us u = Some p)"
  using assms by (auto simp: login_def Let_def)

lemma login_rejects:
  assumes "logged_in s \<noteq> Some True" "us (username inp) \<noteq> Some (password inp)"
  shows "fst (login us inp s) = Stop \<and> logged_in (snd (login us inp s)) \<noteq> Some True"
  using assms by (auto simp: login_def Let_def)

lemma check_role_fixed:
  "user s = Some u \<Longrightarrow>
   check_role s = Inr (if u = py ''admin'' then py ''admin''
                       else if u = py ''analyst'' then py ''analyst'' else py ''reader'')"
  by (simp add: check_role_def role_map_def)

lemma main_gate:
  assumes "logged_in s = Some True \<longrightarrow> (\<exists>u p. user s = Some u \<and> us u = Some p)"
  shows "((outcome (main us inp s w) = Stopped \<or> outcome (main us inp s w) = Rerun_requested)
            \<and> calls (main us inp s w) = [])
       \<or> (\<exists>u p. user (session (main us inp s w)) = Some u \<and> us u = Some p
             \<and> check_role (session (main us inp s w))
                 = Inr (if u = py ''admin'' then py ''admin''
                        else if u = py ''analyst'' then py ''analyst'' else py ''reader'')
             \<and> (Call_load_csv_to_postgres \<in> set (calls (main us inp s w)) \<longrightarrow> u = py ''admin''))"
proof (cases "logged_in s = Some True")
  case False
  from main_gate_closed [OF this] show ?thesis by simp
next
  case True
  with assms obtain u p where u: "user s = Some u" "us u = Some p" by blast
  have s: "session (main us inp s w) = s" by (rule main_session_logged_in [OF True])
  have "u = py ''admin''" if "Call_load_csv_to_postgres \<in> set (calls (main us inp s w))"
  proof -
    from main_calls_load [OF True that] check_role_fixed [OF u(1)]
    show ?thesis by (auto simp: py_def split: if_splits)
  qed
  with u s check_role_fixed [OF u(1)] show ?thesis by auto
qed

lemma runs_gate:
  assumes "logged_in s = Some True \<longrightarrow> (\<exists>u p. user s = Some u \<and> us u = Some p)"
    and "r \<in> set (runs us inps s w)"
  shows "((outcome r = Stopped \<or> outcome r = Rerun_requested) \<and> calls r = [])
       \<or> (\<exists>u p. user (session r) = Some u \<and> us u = Some p
             \<and> check_role (session r)
                 = Inr (if u = py ''admin'' then py ''admin''
                        else if u = py ''analyst'' then py ''analyst'' else py ''reader'')
             \<and> (Call_load_csv_to_postgres \<in> set (calls r) \<longrightarrow> u = py ''admin''))"
  using assms
proof (induction inps arbitrary: s w)
  case Nil
  then show ?case by simp
next
  case (Cons inp inps)
  let ?r = "main us inp s w"
  from Cons.prems(2) have "r = ?r \<or> r \<in> set (runs us inps (session ?r) (store ?r))"
    by (simp add: Let_def)
  then show ?case
  proof
    assume "r = ?r"
    with main_gate [OF Cons.prems(1), of inp w] show ?thesis by simp
  next
    assume r: "r \<in> set (runs us inps (session ?r) (store ?r))"
    have "logged_in (session ?r) = Some True \<longrightarrow>
            (\<exists>u p. user (session ?r) = Some u \<and> us u = Some p)"
    proof (cases "logged_in s = Some True")
      case True
      with Cons.prems(1) main_session_logged_in [OF True, of us inp w] show ?thesis by simp
    next
      case False
      from main_gate_closed [OF False, of us inp w] login_known [OF Cons.prems(1), of inp]
      show ?thesis by simp
    qed
    from Cons.IH [OF this r] show ?thesis .
  qed
qed

lemma runs_rejected:
  assumes "logged_in s \<noteq> Some True"
    and "\<forall>i\<in>set inps. us (username i) \<noteq> Some (password i)"
    and "r \<in> set (runs us inps s w)"
  shows "outcome r = Stopped \<and> calls r = [] \<and> store r = w"
  using assms
proof (induction inps arbitrary: s)
  case Nil
  then show ?case by simp
next
  case (Cons inp inps)
  let ?r = "main us inp s w"
  from Cons.prems(2) have bad: "us (username inp) \<noteq> Some (password inp)"
    and rest: "\<forall>i\<in>set inps. us (username i) \<noteq> Some (password i)" by simp_all
  from login_rejects [where us = us and inp = inp and s = s] Cons.prems(1) bad
  have l: "fst (login us inp s) = Stop" "logged_in (snd (login us inp s)) \<noteq> Some True"
    by simp_all
  from main_gate_closed [OF Cons.prems(1), of us inp w]
  have g: "calls ?r = []" "store ?r = w" "session ?r = snd (login us inp s)" by simp_all
  have o: "outcome ?r = Stopped"
    using l(1) by (cases "login us inp s") (simp add: main_def)
  from Cons.prems(3) have "r = ?r \<or> r \<in> set (runs us inps (session ?r) w)"
    by (simp add: Let_def g)
  then show ?case
  proof
    assume "r = ?r" with g o show ?thesis by simp
  next
    assume "r \<in> set (runs us inps (session ?r) w)"
    from Cons.IH [OF _ rest this] l(2) g(3) show ?thesis by simp
  qed
qed

text \<open>
  C5. In every sequence of runs that starts from a new session, each run either is
  turned away by \<open>login\<close> (it stops or asks for a rerun, and calls nothing), or runs
  for a user that \<^verbatim>\<open>users\<close> knows, whose role is fixed by the user name
  (\<^verbatim>\<open>admin\<close>, \<^verbatim>\<open>analyst\<close>, and \<^verbatim>\<open>reader\<close> for any other), and it calls
  \<open>load_csv_to_postgres\<close> only if that user is \<^verbatim>\<open>admin\<close>. So an identity the
  dictionary does not know never gets a role. While every run presents a user name and
  password that \<^verbatim>\<open>users\<close> does not hold, every run is stopped, calls nothing and leaves
  the store as it was.
\<close>

theorem access_gate:
  assumes "r \<in> set (runs us inps new_session w)"
  shows "(((outcome r = Stopped \<or> outcome r = Rerun_requested) \<and> calls r = [])
          \<or> (\<exists>u p. user (session r) = Some u \<and> us u = Some p
                \<and> check_role (session r)
                    = Inr (if u = py ''admin'' then py ''admin''
                           else if u = py ''analyst'' then py ''analyst'' else py ''reader'')
                \<and> (Call_load_csv_to_postgres \<in> set (calls r) \<longrightarrow> u = py ''admin'')))
       \<and> ((\<forall>i\<in>set inps. us (username i) \<noteq> Some (password i))
            \<longrightarrow> outcome r = Stopped \<and> calls r = [] \<and> store r = w)"
proof -
  have n: "logged_in new_session \<noteq> Some True" by (simp add: new_session_def)
  then have k: "logged_in new_session = Some True \<longrightarrow>
                  (\<exists>u p. user new_session = Some u \<and> us u = Some p)" by simp
  from runs_gate [OF k assms] runs_rejected [OF n _ assms] show ?thesis by blast
qed

theorem access_gate_witness:
  "main default_users stranger_login new_session store_one
     \<in> set (runs default_users [stranger_login] new_session store_one)
   \<and> default_users (username stranger_login) \<noteq> Some (password stranger_login)
   \<and> outcome (main default_users stranger_login new_session store_one) = Stopped
   \<and> calls (main default_users stranger_login new_session store_one) = []
   \<and> store (main default_users stranger_login new_session store_one) = store_one
   \<and> main default_users upload_run admin_session store_one
     \<in> set (runs default_users [stranger_login, admin_login, upload_run] new_session store_one)
   \<and> (\<exists>u p. user (session (main default_users upload_run admin_session store_one)) = Some u
         \<and> default_users u = Some p \<and> u = py ''admin''
         \<and> check_role (session (main default_users upload_run admin_session store_one))
             = Inr (py ''admin''))"
proof -
  let ?r1 = "main default_users stranger_login new_session store_one"
  let ?s1 = "\<lparr>logged_in = Some False, user = None\<rparr>"
  let ?r3 = "main default_users upload_run admin_session store_one"
  have m: "?r1 \<in> set (runs default_users [stranger_login] new_session store_one)"
    by (simp add: Let_def)
  have b: "\<forall>i\<in>set [stranger_login]. default_users (username i) \<noteq> Some (password i)"
    by (simp add: stranger_login_def default_users_def py_def)
  have r1: "session ?r1 = ?s1" "store ?r1 = store_one"
    by (simp_all add: main_def login_def Let_def new_session_def stranger_login_def
        default_users_def py_def)
  have r2: "session (main default_users admin_login ?s1 store_one) = admin_session"
    "store (main default_users admin_login ?s1 store_one) = store_one"
    by (simp_all add: main_def login_def Let_def admin_login_def default_users_def
        admin_session_def py_def)
  have m3: "?r3 \<in> set (runs default_users [stranger_login, admin_login, upload_run]
                 new_session store_one)"
    by (simp add: Let_def r1 r2)
  have c: "Call_load_csv_to_postgres \<in> set (calls ?r3)"
    using admin_run_ingests by simp
  from access_gate [OF m] b m
  have first: "outcome ?r1 = Stopped \<and> calls ?r1 = [] \<and> store ?r1 = store_one" by blast
  from access_gate [OF m3] c
  have "\<exists>u p. user (session ?r3) = Some u \<and> default_users u = Some p \<and> u = py ''admin''
         \<and> check_role (session ?r3) = Inr (py ''admin'')"
    by auto
  with first m b m3 show ?thesis by simp
qed

end
